theory Spec2Isabelle
  imports Complex_Main
begin

section \<open>The cube kinematics and animation engine of RubiksCube.tsx\<close>

text \<open>
  The development embeds \<^verbatim>\<open>src/components/RubiksCube.tsx\<close>: the move switch of
  \<^verbatim>\<open>performMove\<close>, the generation of the 27 cubies, the class \<^verbatim>\<open>CubeAnimation\<close>
  (\<^verbatim>\<open>createRotationGroup\<close>, \<^verbatim>\<open>update\<close>, \<^verbatim>\<open>finish\<close>, \<^verbatim>\<open>easeInOutCubic\<close>) and the
  queue-processing effect of the component \<^verbatim>\<open>RubiksCube\<close>.

  JavaScript numbers are taken as real numbers (IEEE rounding is idealised away), so
  \<^verbatim>\<open>Math.cos\<close>, \<^verbatim>\<open>Math.sin\<close> and \<^verbatim>\<open>Math.PI\<close> are \<^term>\<open>cos\<close>, \<^term>\<open>sin\<close> and \<^term>\<open>pi\<close>, and
  \<^verbatim>\<open>Math.round\<close> (nearest integer, ties upwards) is \<^term>\<open>round\<close>, which is
  \<open>\<lfloor>x + 1/2\<rfloor>\<close>.
\<close>

subsection \<open>Vectors, quaternions and the rotation matrix of three.js\<close>

record Vector3 =
  vx :: real
  vy :: real
  vz :: real

record Quaternion =
  qx :: real
  qy :: real
  qz :: real
  qw :: real

text \<open>
  The source writes the axis as a number; the switch of \<^verbatim>\<open>performMove\<close> is the only
  producer of move data and yields 0, 1 or 2, for which \<^verbatim>\<open>Vector3.getComponent\<close> is
  defined (it throws on any other index).
\<close>

datatype Axis = X | Y | Z

fun axis_number :: "Axis \<Rightarrow> nat" where
  "axis_number X = 0"
| "axis_number Y = 1"
| "axis_number Z = 2"

fun getComponent :: "Vector3 \<Rightarrow> Axis \<Rightarrow> real" where
  "getComponent v X = vx v"
| "getComponent v Y = vy v"
| "getComponent v Z = vz v"

definition multiplyScalar :: "Vector3 \<Rightarrow> real \<Rightarrow> Vector3" where
  "multiplyScalar v s = \<lparr>vx = vx v * s, vy = vy v * s, vz = vz v * s\<rparr>"

definition sub :: "Vector3 \<Rightarrow> Vector3 \<Rightarrow> Vector3" where
  "sub v w = \<lparr>vx = vx v - vx w, vy = vy v - vy w, vz = vz v - vz w\<rparr>"

text \<open>
  \<^verbatim>\<open>new THREE.Vector3(axis === 0 ? 1 : 0, axis === 1 ? 1 : 0, axis === 2 ? 1 : 0)\<close>
\<close>

definition axisVector :: "Axis \<Rightarrow> Vector3" where
  "axisVector a =
     \<lparr>vx = (if axis_number a = 0 then 1 else 0),
      vy = (if axis_number a = 1 then 1 else 0),
      vz = (if axis_number a = 2 then 1 else 0)\<rparr>"

text \<open>
  \<^verbatim>\<open>Matrix4.makeRotationAxis(axis, angle)\<close> of three.js; only the upper-left 3x3 block
  is kept, the rest of the matrix being that of the identity (so the divisor \<open>w\<close> of
  \<^verbatim>\<open>applyMatrix4\<close> is 1 and there is no translation).

  Cosine and sine are the exact ones here, so the matrix of a quarter turn has exact
  zeros, whereas \<^verbatim>\<open>Math.cos(Math.PI / 2)\<close> is about 6.1e-17. The two agree after the
  rounding of \<^verbatim>\<open>finish\<close> as long as the rotated coordinates stay away from the
  half-integers, which is the case for positions on or near the grid; what is proved
  about committed positions is stated for such positions only.
\<close>

record Matrix4 =
  n11 :: real  n12 :: real  n13 :: real
  n21 :: real  n22 :: real  n23 :: real
  n31 :: real  n32 :: real  n33 :: real

definition makeRotationAxis :: "Vector3 \<Rightarrow> real \<Rightarrow> Matrix4" where
  "makeRotationAxis a angle =
     (let c = cos angle; s = sin angle; t = 1 - c;
          tx = t * vx a; ty = t * vy a
      in \<lparr>n11 = tx * vx a + c, n12 = tx * vy a - s * vz a, n13 = tx * vz a + s * vy a,
          n21 = tx * vy a + s * vz a, n22 = ty * vy a + c, n23 = ty * vz a - s * vx a,
          n31 = tx * vz a - s * vy a, n32 = ty * vz a + s * vx a, n33 = t * vz a * vz a + c\<rparr>)"

definition applyMatrix4 :: "Vector3 \<Rightarrow> Matrix4 \<Rightarrow> Vector3" where
  "applyMatrix4 v m =
     \<lparr>vx = n11 m * vx v + n12 m * vy v + n13 m * vz v,
      vy = n21 m * vx v + n22 m * vy v + n23 m * vz v,
      vz = n31 m * vx v + n32 m * vy v + n33 m * vz v\<rparr>"

text \<open>The three assignments \<^verbatim>\<open>newPosition.x = Math.round(newPosition.x)\<close>, ... of \<^verbatim>\<open>finish\<close>.\<close>

definition snapToGrid :: "Vector3 \<Rightarrow> Vector3" where
  "snapToGrid v =
     \<lparr>vx = of_int (round (vx v)), vy = of_int (round (vy v)), vz = of_int (round (vz v))\<rparr>"

text \<open>
  \<^verbatim>\<open>Quaternion.setFromEuler\<close> for the default order XYZ. Every \<^verbatim>\<open>Object3D\<close> keeps its
  \<^verbatim>\<open>rotation\<close> (Euler angles) and its \<^verbatim>\<open>quaternion\<close> in step: a change of one rewrites the
  other, so \<^verbatim>\<open>child.rotation.set(0, 0, 0)\<close> stores \<open>setFromEuler 0 0 0\<close> in the quaternion.
\<close>

definition setFromEuler :: "real \<Rightarrow> real \<Rightarrow> real \<Rightarrow> Quaternion" where
  "setFromEuler ex ey ez =
     (let c1 = cos (ex / 2); c2 = cos (ey / 2); c3 = cos (ez / 2);
          s1 = sin (ex / 2); s2 = sin (ey / 2); s3 = sin (ez / 2)
      in \<lparr>qx = s1 * c2 * c3 + c1 * s2 * s3,
          qy = c1 * s2 * c3 - s1 * c2 * s3,
          qz = c1 * c2 * s3 + s1 * s2 * c3,
          qw = c1 * c2 * c3 - s1 * s2 * s3\<rparr>)"

definition identityQuaternion :: Quaternion where
  "identityQuaternion = \<lparr>qx = 0, qy = 0, qz = 0, qw = 1\<rparr>"

subsection \<open>The scene graph\<close>

text \<open>
  A mesh is one cubie. \<open>mesh_id\<close> is the object's identity (\<^verbatim>\<open>Object3D.id\<close>): the key of
  the two \<^verbatim>\<open>WeakMap\<close>s and what \<^verbatim>\<open>indexOf\<close> compares in \<^verbatim>\<open>Object3D.remove\<close>.
\<close>

record Mesh =
  mesh_id :: nat
  position :: Vector3
  quaternion :: Quaternion

text \<open>
  An entry of \<^verbatim>\<open>group.children\<close>: a mesh, or the rotation group of the running
  session. The rotation group is one object referenced twice (by \<^verbatim>\<open>this.rotationGroup\<close>
  and by the group's child list); it is stored once, in the session, and \<open>PivotChild\<close>
  is the reference to it in the child list.
\<close>

datatype Object3D = MeshChild Mesh | PivotChild

fun same_object :: "Object3D \<Rightarrow> Object3D \<Rightarrow> bool" where
  "same_object (MeshChild m) (MeshChild m') = (mesh_id m = mesh_id m')"
| "same_object PivotChild PivotChild = True"
| "same_object _ _ = False"

text \<open>
  \<^verbatim>\<open>Object3D.remove(object)\<close>: \<^verbatim>\<open>children.indexOf(object)\<close>, then
  \<^verbatim>\<open>children.splice(index, 1)\<close> on the live array. \<^verbatim>\<open>Object3D.add(object)\<close> pushes the
  object (already parentless here) at the end.
\<close>

fun Object3D_remove :: "Object3D \<Rightarrow> Object3D list \<Rightarrow> Object3D list" where
  "Object3D_remove obj [] = []"
| "Object3D_remove obj (c # cs) = (if same_object c obj then cs else c # Object3D_remove obj cs)"

definition Object3D_add :: "Object3D \<Rightarrow> Object3D list \<Rightarrow> Object3D list" where
  "Object3D_add obj cs = cs @ [obj]"

record RotationGroup =
  rg_children :: "Mesh list"
  rg_position :: Vector3
  rg_rotation :: Vector3

definition new_Group :: RotationGroup where
  "new_Group = \<lparr>rg_children = [], rg_position = \<lparr>vx = 0, vy = 0, vz = 0\<rparr>,
                 rg_rotation = \<lparr>vx = 0, vy = 0, vz = 0\<rparr>\<rparr>"

subsection \<open>Moves and the switch of performMove\<close>

record MoveData =
  axis :: Axis
  index :: int
  direction :: int

definition prime :: char where
  "prime = CHR 0x27"

definition parseMove :: "string \<Rightarrow> MoveData option" where
  "parseMove move =
     (if move = ''U'' then Some \<lparr>axis = Y, index = 1, direction = -1\<rparr>
      else if move = [CHR ''U'', prime] then Some \<lparr>axis = Y, index = 1, direction = 1\<rparr>
      else if move = ''D'' then Some \<lparr>axis = Y, index = -1, direction = 1\<rparr>
      else if move = [CHR ''D'', prime] then Some \<lparr>axis = Y, index = -1, direction = -1\<rparr>
      else if move = ''R'' then Some \<lparr>axis = X, index = 1, direction = -1\<rparr>
      else if move = [CHR ''R'', prime] then Some \<lparr>axis = X, index = 1, direction = 1\<rparr>
      else if move = ''L'' then Some \<lparr>axis = X, index = -1, direction = 1\<rparr>
      else if move = [CHR ''L'', prime] then Some \<lparr>axis = X, index = -1, direction = -1\<rparr>
      else if move = ''F'' then Some \<lparr>axis = Z, index = 1, direction = -1\<rparr>
      else if move = [CHR ''F'', prime] then Some \<lparr>axis = Z, index = 1, direction = 1\<rparr>
      else if move = ''B'' then Some \<lparr>axis = Z, index = -1, direction = 1\<rparr>
      else if move = [CHR ''B'', prime] then Some \<lparr>axis = Z, index = -1, direction = -1\<rparr>
      else None)"

subsection \<open>The class CubeAnimation\<close>

text \<open>
  The fields of the class. \<^verbatim>\<open>this.group\<close> is a reference to the scene's group, which the
  component holds too: the group's child list is passed to each method and returned
  updated. \<^verbatim>\<open>onComplete\<close> is the closure built by the queue-processing effect; it is
  represented by the one value it captures, \<^verbatim>\<open>newMoveQueue\<close>. A \<^verbatim>\<open>WeakMap\<close> keyed by
  mesh is a map from the mesh's identity.
\<close>

record CubeAnimation =
  anim_move :: MoveData
  onComplete :: "MoveData list"
  progress :: real
  duration :: real
  rotationGroup :: "RotationGroup option"
  originalPositions :: "nat \<rightharpoonup> Vector3"
  originalQuaternions :: "nat \<rightharpoonup> Quaternion"

text \<open>
  The body of the \<^verbatim>\<open>forEach\<close> callback in \<^verbatim>\<open>createRotationGroup\<close>, on the pair of the
  group's child list and the session.
\<close>

definition attach_to_pivot :: "Mesh \<Rightarrow> CubeAnimation \<Rightarrow> CubeAnimation" where
  "attach_to_pivot m a =
     a\<lparr>rotationGroup :=
         map_option (\<lambda>rg. rg\<lparr>rg_children := rg_children rg @ [m]\<rparr>) (rotationGroup a)\<rparr>"

definition visit_child :: "Object3D \<Rightarrow> Object3D list \<times> CubeAnimation \<Rightarrow> Object3D list \<times> CubeAnimation" where
  "visit_child child s =
     (case child of
        PivotChild \<Rightarrow> s
      | MeshChild m \<Rightarrow>
          (let g = fst s; a = snd s; mv = anim_move a; pos = position m in
           if round (getComponent pos (axis mv)) = index mv then
             (Object3D_remove child g,
              attach_to_pivot
                (m\<lparr>position := sub pos (multiplyScalar (axisVector (axis mv)) (of_int (index mv)))\<rparr>)
                (a\<lparr>originalPositions := (originalPositions a)(mesh_id m \<mapsto> pos),
                   originalQuaternions := (originalQuaternions a)(mesh_id m \<mapsto> quaternion m)\<rparr>))
           else s))"

text \<open>
  \<^verbatim>\<open>Array.prototype.forEach\<close> reads the length once and then visits the indices
  \<open>0, 1, ..., len - 1\<close> of the live array, skipping an index that is no longer present.
  The callback removes the visited child from the very array that is iterated, so the
  elements behind it move down by one while the index still advances.
\<close>

primrec forEach_from :: "nat \<Rightarrow> nat \<Rightarrow> Object3D list \<times> CubeAnimation \<Rightarrow> Object3D list \<times> CubeAnimation" where
  "forEach_from 0 k s = s"
| "forEach_from (Suc n) k s =
     forEach_from n (Suc k) (if k < length (fst s) then visit_child (fst s ! k) s else s)"

definition createRotationGroup :: "Object3D list \<Rightarrow> CubeAnimation \<Rightarrow> Object3D list \<times> CubeAnimation" where
  "createRotationGroup g a =
     (let s = forEach_from (length g) 0 (g, a\<lparr>rotationGroup := Some new_Group\<rparr>);
          mv = anim_move a
      in (Object3D_add PivotChild (fst s),
          (snd s)\<lparr>rotationGroup :=
             map_option (\<lambda>rg. rg\<lparr>rg_position :=
                 multiplyScalar (axisVector (axis mv)) (of_int (index mv))\<rparr>) (rotationGroup (snd s))\<rparr>))"

text \<open>The constructor: \<^verbatim>\<open>new CubeAnimation(group, axis, index, direction, onComplete)\<close>.\<close>

definition new_CubeAnimation :: "Object3D list \<Rightarrow> MoveData \<Rightarrow> MoveData list \<Rightarrow> Object3D list \<times> CubeAnimation" where
  "new_CubeAnimation g mv cb =
     createRotationGroup g
       \<lparr>anim_move = mv, onComplete = cb, progress = 0, duration = 3 / 10,
        rotationGroup = None, originalPositions = Map.empty, originalQuaternions = Map.empty\<rparr>"

definition easeInOutCubic :: "real \<Rightarrow> real" where
  "easeInOutCubic t = (if t < 1 / 2 then 4 * t * t * t else 1 - (- 2 * t + 2) ^ 3 / 2)"

text \<open>\<^verbatim>\<open>update(delta)\<close> returns the session and whether the animation is complete.\<close>

definition update :: "real \<Rightarrow> CubeAnimation \<Rightarrow> CubeAnimation \<times> bool" where
  "update delta a =
     (case rotationGroup a of
        None \<Rightarrow> (a, True)
      | Some rg \<Rightarrow>
          (let p = min (progress a + delta / duration a) 1;
               eased = easeInOutCubic p;
               angle = (pi / 2) * eased * of_int (direction (anim_move a));
               r0 = rg_rotation rg;
               r1 = (if axis_number (axis (anim_move a)) = 0 then r0\<lparr>vx := angle\<rparr> else r0);
               r2 = (if axis_number (axis (anim_move a)) = 1 then r1\<lparr>vy := angle\<rparr> else r1);
               r3 = (if axis_number (axis (anim_move a)) = 2 then r2\<lparr>vz := angle\<rparr> else r2)
           in (a\<lparr>progress := p, rotationGroup := Some (rg\<lparr>rg_rotation := r3\<rparr>)\<rparr>, p \<ge> 1)))"

text \<open>
  One turn of the \<^verbatim>\<open>while\<close> loop of \<^verbatim>\<open>finish\<close> for the child at the head of the rotation
  group: the pose it is given, from the two maps and the move alone.
\<close>

definition restore_child :: "CubeAnimation \<Rightarrow> Mesh \<Rightarrow> Mesh" where
  "restore_child a child =
     (case (originalPositions a (mesh_id child), originalQuaternions a (mesh_id child)) of
        (Some originalPosition, Some originalQuaternion) \<Rightarrow>
          (let mv = anim_move a;
               rotationMatrix = makeRotationAxis (axisVector (axis mv)) ((pi / 2) * of_int (direction mv));
               newPosition = snapToGrid (applyMatrix4 originalPosition rotationMatrix);
               c1 = child\<lparr>position := newPosition\<rparr>;
               c2 = c1\<lparr>quaternion := originalQuaternion\<rparr>
           in c2\<lparr>quaternion := setFromEuler 0 0 0\<rparr>)
      | _ \<Rightarrow> child)"

text \<open>
  The loop takes \<^verbatim>\<open>rotationGroup.children[0]\<close>, restores it, removes it from the rotation
  group and adds it to the group, until the rotation group is empty.
\<close>

fun finish_loop :: "CubeAnimation \<Rightarrow> Mesh list \<Rightarrow> Object3D list \<Rightarrow> Object3D list" where
  "finish_loop a [] g = g"
| "finish_loop a (child # rest) g =
     finish_loop a rest (Object3D_add (MeshChild (restore_child a child)) g)"

text \<open>
  \<^verbatim>\<open>finish()\<close> returns the group's child list, the session, and whether
  \<^verbatim>\<open>this.onComplete()\<close> was called.
\<close>

definition finish :: "Object3D list \<Rightarrow> CubeAnimation \<Rightarrow> Object3D list \<times> CubeAnimation \<times> bool" where
  "finish g a =
     (case rotationGroup a of
        None \<Rightarrow> (g, a, False)
      | Some rg \<Rightarrow>
          (Object3D_remove PivotChild (finish_loop a (rg_children rg) g),
           a\<lparr>rotationGroup := None, originalPositions := Map.empty,
             originalQuaternions := Map.empty\<rparr>,
           True))"

subsection \<open>The 27 cubies\<close>

text \<open>
  The three nested loops of \<^verbatim>\<open>RubiksCubeScene\<close>, \<open>x\<close> outermost, each from -1 to 1.
  Meshes are numbered in the order in which they are pushed; a new mesh has the identity
  orientation.
\<close>

definition new_cubie :: "int \<Rightarrow> int \<Rightarrow> int \<Rightarrow> Mesh" where
  "new_cubie cx cy cz =
     \<lparr>mesh_id = nat (9 * (cx + 1) + 3 * (cy + 1) + (cz + 1)),
      position = \<lparr>vx = of_int cx, vy = of_int cy, vz = of_int cz\<rparr>,
      quaternion = identityQuaternion\<rparr>"

definition cubies :: "Mesh list" where
  "cubies =
     concat (map (\<lambda>cx. concat (map (\<lambda>cy. map (\<lambda>cz. new_cubie cx cy cz) [-1, 0, 1]) [-1, 0, 1]))
       [-1, 0, 1])"

definition initial_group :: "Object3D list" where
  "initial_group = map MeshChild cubies"

subsection \<open>The component RubiksCube: queue, effect and frame callback\<close>

text \<open>
  The state of the component. \<open>group_children\<close> is the child list of the scene's group
  object; \<open>cubeGroup\<close> says whether the state variable of that name refers to it (or is
  \<^verbatim>\<open>null\<close>). A state update takes effect at once: the batching of React is not modelled.
\<close>

record RubiksCube =
  group_children :: "Object3D list"
  cubeGroup :: bool
  currentAnimation :: "CubeAnimation option"
  moveQueue :: "MoveData list"
  isAnimating :: bool

text \<open>\<^verbatim>\<open>setMoveQueue(prevQueue => [...prevQueue, moveData])\<close>\<close>

definition handleCubeInitialized :: "MoveData \<Rightarrow> RubiksCube \<Rightarrow> RubiksCube" where
  "handleCubeInitialized moveData st = st\<lparr>moveQueue := moveQueue st @ [moveData]\<rparr>"

text \<open>
  \<^verbatim>\<open>performMove(move)\<close> of the component, through the one of the scene (both refs are set
  once mounted, and \<^verbatim>\<open>onCubeInitialized\<close> is \<^verbatim>\<open>handleCubeInitialized\<close>): the \<^verbatim>\<open>default\<close>
  branch of the switch returns before anything is called.
\<close>

definition performMove :: "string \<Rightarrow> RubiksCube \<Rightarrow> RubiksCube" where
  "performMove move st =
     (case parseMove move of
        None \<Rightarrow> st
      | Some moveData \<Rightarrow> handleCubeInitialized moveData st)"

text \<open>
  What an observer sees of the sessions: the effect starting one (where the source logs
  \<^verbatim>\<open>'Starting animation:'\<close>) and \<^verbatim>\<open>finish\<close> calling \<^verbatim>\<open>onComplete\<close>.
\<close>

datatype Event = Started MoveData | Completed MoveData

text \<open>
  The closure handed to the constructor, applied to the captured \<^verbatim>\<open>newMoveQueue\<close>:
  \<^verbatim>\<open>setCurrentAnimation(null); setMoveQueue(newMoveQueue);
  if (newMoveQueue.length === 0) setIsAnimating(false)\<close>.
\<close>

definition call_onComplete :: "MoveData list \<Rightarrow> RubiksCube \<Rightarrow> RubiksCube" where
  "call_onComplete newMoveQueue st =
     st\<lparr>currentAnimation := None, moveQueue := newMoveQueue,
        isAnimating := (if newMoveQueue = [] then False else isAnimating st)\<rparr>"

text \<open>The queue-processing effect (\<^verbatim>\<open>useEffect\<close> on the queue, the group and the session).\<close>

definition processQueue :: "RubiksCube \<Rightarrow> RubiksCube \<times> Event list" where
  "processQueue st =
     (case moveQueue st of
        [] \<Rightarrow> (st, [])
      | nextMove # newMoveQueue \<Rightarrow>
          if cubeGroup st \<and> currentAnimation st = None then
            (let r = new_CubeAnimation (group_children st) nextMove newMoveQueue
             in (st\<lparr>isAnimating := True, group_children := fst r,
                    currentAnimation := Some (snd r)\<rparr>, [Started nextMove]))
          else (st, []))"

text \<open>
  The frame callback of the scene: \<^verbatim>\<open>update(delta)\<close> and, when it reports completion,
  \<^verbatim>\<open>finish()\<close> (\<^verbatim>\<open>onAnimationComplete\<close> is not passed by the component).
\<close>

definition useFrame :: "real \<Rightarrow> RubiksCube \<Rightarrow> RubiksCube \<times> Event list" where
  "useFrame delta st =
     (case currentAnimation st of
        None \<Rightarrow> (st, [])
      | Some a \<Rightarrow>
          (let u = update delta a in
           if snd u then
             (let f = finish (group_children st) (fst u);
                  st1 = st\<lparr>group_children := fst f, currentAnimation := Some (fst (snd f))\<rparr>
              in if snd (snd f)
                 then (call_onComplete (onComplete (fst (snd f))) st1, [Completed (anim_move a)])
                 else (st1, []))
           else (st\<lparr>currentAnimation := Some (fst u)\<rparr>, [])))"

datatype Action = PerformMove string | RunEffect | Frame real

fun step :: "Action \<Rightarrow> RubiksCube \<Rightarrow> RubiksCube \<times> Event list" where
  "step (PerformMove move) st = (performMove move st, [])"
| "step RunEffect st = processQueue st"
| "step (Frame delta) st = useFrame delta st"

fun run :: "Action list \<Rightarrow> RubiksCube \<Rightarrow> RubiksCube \<times> Event list" where
  "run [] st = (st, [])"
| "run (act # acts) st =
     (let r = step act st; r' = run acts (fst r) in (fst r', snd r @ snd r'))"

text \<open>The component once mounted: the 27 cubies, no session, an empty queue.\<close>

definition mounted :: RubiksCube where
  "mounted = \<lparr>group_children = initial_group, cubeGroup = True, currentAnimation = None,
              moveQueue = [], isAnimating = False\<rparr>"

subsection \<open>Notions used to state the properties\<close>

text \<open>
  The quarter turn about an axis, sign \<open>d\<close>, in closed form: the rotation by
  \<open>d * pi / 2\<close> with cosine 0 and sine \<open>d\<close>.
\<close>

fun quarterTurn :: "Axis \<Rightarrow> int \<Rightarrow> Vector3 \<Rightarrow> Vector3" where
  "quarterTurn X d v = \<lparr>vx = vx v, vy = - of_int d * vz v, vz = of_int d * vy v\<rparr>"
| "quarterTurn Y d v = \<lparr>vx = of_int d * vz v, vy = vy v, vz = - of_int d * vx v\<rparr>"
| "quarterTurn Z d v = \<lparr>vx = - of_int d * vy v, vy = of_int d * vx v, vz = vz v\<rparr>"

fun meshes :: "Object3D list \<Rightarrow> Mesh list" where
  "meshes [] = []"
| "meshes (MeshChild m # cs) = m # meshes cs"
| "meshes (PivotChild # cs) = meshes cs"

definition pivot_children :: "CubeAnimation \<Rightarrow> Mesh list" where
  "pivot_children a = (case rotationGroup a of None \<Rightarrow> [] | Some rg \<Rightarrow> rg_children rg)"

text \<open>Any number of frames, of any sizes, on a session.\<close>

fun updates :: "real list \<Rightarrow> CubeAnimation \<Rightarrow> CubeAnimation" where
  "updates [] a = a"
| "updates (delta # deltas) a = updates deltas (fst (update delta a))"

text \<open>
  The pose \<^verbatim>\<open>finish\<close> gives a child when the direction is 1 or -1, free of
  trigonometry, and the child list a whole move leaves behind in that case: the
  constructor on \<open>g\<close>, then the commit.
\<close>

definition quarter_pose :: "CubeAnimation \<Rightarrow> Mesh \<Rightarrow> Mesh" where
  "quarter_pose a child =
     (case (originalPositions a (mesh_id child), originalQuaternions a (mesh_id child)) of
        (Some originalPosition, Some originalQuaternion) \<Rightarrow>
          child\<lparr>position := snapToGrid
                    (quarterTurn (axis (anim_move a)) (direction (anim_move a)) originalPosition),
                quaternion := identityQuaternion\<rparr>
      | _ \<Rightarrow> child)"

definition committed :: "Object3D list \<Rightarrow> MoveData \<Rightarrow> Object3D list" where
  "committed g mv =
     (let r = new_CubeAnimation g mv []
      in Object3D_remove PivotChild
           (fst r @ map (\<lambda>m. MeshChild (quarter_pose (snd r) m)) (pivot_children (snd r))))"

text \<open>The cubies of a layer: those whose rounded coordinate along the axis is the slice.\<close>

definition layer :: "Axis \<Rightarrow> int \<Rightarrow> Object3D list \<Rightarrow> Mesh list" where
  "layer ax i g = filter (\<lambda>m. round (getComponent (position m) ax) = i) (meshes g)"

text \<open>The twelve tokens of the switch.\<close>

definition move_tokens :: "string list" where
  "move_tokens =
     [''U'', [CHR ''U'', prime], ''D'', [CHR ''D'', prime], ''R'', [CHR ''R'', prime],
      ''L'', [CHR ''L'', prime], ''F'', [CHR ''F'', prime], ''B'', [CHR ''B'', prime]]"

text \<open>
  A trace of events in which sessions do not overlap: starts and completions alternate,
  and each completion is that of the move started last. The first argument is the move
  in flight, if any.
\<close>

fun alternating :: "MoveData option \<Rightarrow> Event list \<Rightarrow> bool" where
  "alternating cur [] = True"
| "alternating None (Started m # es) = alternating (Some m) es"
| "alternating (Some m) (Completed m' # es) = (m = m' \<and> alternating None es)"
| "alternating None (Completed m # es) = False"
| "alternating (Some m) (Started m' # es) = False"

fun started :: "Event list \<Rightarrow> MoveData list" where
  "started [] = []"
| "started (Started m # es) = m # started es"
| "started (Completed m # es) = started es"

fun completed :: "Event list \<Rightarrow> MoveData list" where
  "completed [] = []"
| "completed (Started m # es) = completed es"
| "completed (Completed m # es) = m # completed es"

definition in_flight :: "RubiksCube \<Rightarrow> MoveData option" where
  "in_flight st = map_option anim_move (currentAnimation st)"

text \<open>
  The orientation the quarter turn itself would give, for comparison with what
  \<^verbatim>\<open>finish\<close> stores: \<^verbatim>\<open>Quaternion.setFromAxisAngle\<close> and \<^verbatim>\<open>Quaternion.multiply\<close> of
  three.js.
\<close>

definition setFromAxisAngle :: "Vector3 \<Rightarrow> real \<Rightarrow> Quaternion" where
  "setFromAxisAngle a angle =
     (let s = sin (angle / 2)
      in \<lparr>qx = vx a * s, qy = vy a * s, qz = vz a * s, qw = cos (angle / 2)\<rparr>)"

definition multiplyQuaternions :: "Quaternion \<Rightarrow> Quaternion \<Rightarrow> Quaternion" where
  "multiplyQuaternions a b =
     \<lparr>qx = qx a * qw b + qw a * qx b + qy a * qz b - qz a * qy b,
      qy = qy a * qw b + qw a * qy b + qz a * qx b - qx a * qz b,
      qz = qz a * qw b + qw a * qz b + qx a * qy b - qy a * qx b,
      qw = qw a * qw b - qx a * qx b - qy a * qy b - qz a * qz b\<rparr>"

definition quarterTurnQuaternion :: "MoveData \<Rightarrow> Quaternion" where
  "quarterTurnQuaternion mv =
     setFromAxisAngle (axisVector (axis mv)) ((pi / 2) * of_int (direction mv))"

text \<open>
  A coordinate within 1/4 of -1, 0 or 1, a position all of whose coordinates are so (the
  grid, up to a drift far smaller than what rounding absorbs), and a position exactly on
  the grid.
\<close>

definition near_coord :: "real \<Rightarrow> bool" where
  "near_coord c = (\<bar>c + 1\<bar> \<le> 1 / 4 \<or> \<bar>c\<bar> \<le> 1 / 4 \<or> \<bar>c - 1\<bar> \<le> 1 / 4)"

definition near_grid :: "Vector3 \<Rightarrow> bool" where
  "near_grid v = (near_coord (vx v) \<and> near_coord (vy v) \<and> near_coord (vz v))"

definition on_grid :: "Vector3 \<Rightarrow> bool" where
  "on_grid v = (vx v \<in> {- 1, 0, 1} \<and> vy v \<in> {- 1, 0, 1} \<and> vz v \<in> {- 1, 0, 1})"

text \<open>
  What holds of the loop of \<^verbatim>\<open>createRotationGroup\<close> on a group whose child list was
  \<open>g0\<close>: the meshes still in the group are meshes of \<open>g0\<close>; a mesh in the rotation group
  is a mesh of \<open>g0\<close> up to its position, and the two maps hold the position and the
  orientation it had in \<open>g0\<close>; no identity occurs twice.
\<close>

definition detached_inv :: "Object3D list \<Rightarrow> Object3D list \<times> CubeAnimation \<Rightarrow> bool" where
  "detached_inv g0 s =
     (rotationGroup (snd s) \<noteq> None \<and>
      (\<forall>m. MeshChild m \<in> set (fst s) \<longrightarrow> MeshChild m \<in> set g0) \<and>
      (\<forall>m \<in> set (pivot_children (snd s)).
         \<exists>m0. MeshChild m0 \<in> set g0 \<and> m = m0\<lparr>position := position m\<rparr> \<and>
              originalPositions (snd s) (mesh_id m0) = Some (position m0) \<and>
              originalQuaternions (snd s) (mesh_id m0) = Some (quaternion m0)) \<and>
      distinct (map mesh_id (meshes (fst s)) @ map mesh_id (pivot_children (snd s))))"

section \<open>Properties\<close>

subsection \<open>Auxiliary facts about the rotation, the loop and the session\<close>

lemma quarter_turn_matrix:
  assumes "d = 1 \<or> d = - 1"
  shows "applyMatrix4 v (makeRotationAxis (axisVector ax) ((pi / 2) * of_int d)) = quarterTurn ax d v"
  using assms by (cases ax) (auto simp: applyMatrix4_def makeRotationAxis_def axisVector_def Let_def)

lemma setFromEuler_zero: "setFromEuler 0 0 0 = identityQuaternion"
  by (simp add: setFromEuler_def identityQuaternion_def)

lemma restore_child_quarter:
  assumes "direction (anim_move a) = 1 \<or> direction (anim_move a) = - 1"
  shows "restore_child a child = quarter_pose a child"
proof -
  have "applyMatrix4 p (makeRotationAxis (axisVector (axis (anim_move a)))
          ((pi / 2) * of_int (direction (anim_move a)))) =
        quarterTurn (axis (anim_move a)) (direction (anim_move a)) p" for p
    by (rule quarter_turn_matrix [OF assms])
  then show ?thesis
    by (simp add: restore_child_def quarter_pose_def Let_def setFromEuler_zero
        split: option.splits)
qed

lemma finish_loop_append: "finish_loop a ms g = g @ map (\<lambda>m. MeshChild (restore_child a m)) ms"
  by (induction ms arbitrary: g) (simp_all add: Object3D_add_def)

lemma forEach_from_invariant:
  assumes "P s" and "\<And>c t. P t \<Longrightarrow> c \<in> set (fst t) \<Longrightarrow> P (visit_child c t)"
  shows "P (forEach_from n k s)"
  using assms(1)
proof (induction n arbitrary: k s)
  case 0
  then show ?case by simp
next
  case (Suc n)
  have "P (if k < length (fst s) then visit_child (fst s ! k) s else s)"
    using Suc.prems assms(2) by simp
  then show ?case using Suc.IH by simp
qed

lemma visit_child_fields:
  "anim_move (snd (visit_child c s)) = anim_move (snd s)"
  "onComplete (snd (visit_child c s)) = onComplete (snd s)"
  "progress (snd (visit_child c s)) = progress (snd s)"
  "duration (snd (visit_child c s)) = duration (snd s)"
  "(rotationGroup (snd (visit_child c s)) = None) = (rotationGroup (snd s) = None)"
  by (auto simp: visit_child_def attach_to_pivot_def Let_def split: Object3D.splits)

lemma forEach_from_fields:
  "anim_move (snd (forEach_from n k s)) = anim_move (snd s) \<and>
   onComplete (snd (forEach_from n k s)) = onComplete (snd s) \<and>
   progress (snd (forEach_from n k s)) = progress (snd s) \<and>
   duration (snd (forEach_from n k s)) = duration (snd s) \<and>
   (rotationGroup (snd (forEach_from n k s)) = None) = (rotationGroup (snd s) = None)"
  by (rule forEach_from_invariant) (simp_all add: visit_child_fields)

lemma new_CubeAnimation_fields:
  "anim_move (snd (new_CubeAnimation g mv cb)) = mv"
  "onComplete (snd (new_CubeAnimation g mv cb)) = cb"
  "progress (snd (new_CubeAnimation g mv cb)) = 0"
  "duration (snd (new_CubeAnimation g mv cb)) = 3 / 10"
  "rotationGroup (snd (new_CubeAnimation g mv cb)) \<noteq> None"
  using forEach_from_fields [of "length g" 0 "(g, \<lparr>anim_move = mv, onComplete = cb, progress = 0, duration = 3 / 10,
        rotationGroup = Some new_Group, originalPositions = Map.empty, originalQuaternions = Map.empty\<rparr>)"]
  by (auto simp: new_CubeAnimation_def createRotationGroup_def Let_def)


lemma update_fields:
  "anim_move (fst (update delta a)) = anim_move a"
  "onComplete (fst (update delta a)) = onComplete a"
  "duration (fst (update delta a)) = duration a"
  "originalPositions (fst (update delta a)) = originalPositions a"
  "originalQuaternions (fst (update delta a)) = originalQuaternions a"
  "pivot_children (fst (update delta a)) = pivot_children a"
  "(rotationGroup (fst (update delta a)) = None) = (rotationGroup a = None)"
  by (simp_all add: update_def pivot_children_def Let_def split: option.splits)

lemma updates_fields:
  "anim_move (updates deltas a) = anim_move a \<and>
   onComplete (updates deltas a) = onComplete a \<and>
   duration (updates deltas a) = duration a \<and>
   originalPositions (updates deltas a) = originalPositions a \<and>
   originalQuaternions (updates deltas a) = originalQuaternions a \<and>
   pivot_children (updates deltas a) = pivot_children a \<and>
   (rotationGroup (updates deltas a) = None) = (rotationGroup a = None)"
  by (induction deltas arbitrary: a) (simp_all add: update_fields)

lemma restore_child_cong:
  assumes "anim_move a = anim_move b"
    and "originalPositions a = originalPositions b"
    and "originalQuaternions a = originalQuaternions b"
  shows "restore_child a = restore_child b"
  by (rule ext) (simp add: restore_child_def assms split: option.splits)

lemma finish_group:
  "fst (finish g a) =
     (if rotationGroup a = None then g
      else Object3D_remove PivotChild (g @ map (\<lambda>m. MeshChild (restore_child a m)) (pivot_children a)))"
  by (simp add: finish_def finish_loop_append pivot_children_def split: option.splits)

lemma finish_after_updates: "fst (finish g (updates deltas a)) = fst (finish g a)"
  using updates_fields [of deltas a] restore_child_cong [of "updates deltas a" a]
  by (simp add: finish_group)


lemma visit_child_callback:
  "visit_child c (g, a\<lparr>onComplete := cb\<rparr>) =
     (fst (visit_child c (g, a)), (snd (visit_child c (g, a)))\<lparr>onComplete := cb\<rparr>)"
  by (simp add: visit_child_def attach_to_pivot_def Let_def split: Object3D.splits)

lemma forEach_from_callback:
  "forEach_from n k (g, a\<lparr>onComplete := cb\<rparr>) =
     (fst (forEach_from n k (g, a)), (snd (forEach_from n k (g, a)))\<lparr>onComplete := cb\<rparr>)"
proof (induction n arbitrary: k g a)
  case 0
  then show ?case by simp
next
  case (Suc n)
  show ?case
  proof (cases "k < length g")
    case True
    obtain g' a' where v: "visit_child (g ! k) (g, a) = (g', a')" by (cases "visit_child (g ! k) (g, a)")
    with True Suc.IH [where k = "Suc k" and g = g' and a = a'] show ?thesis
      by (simp add: visit_child_callback)
  next
    case False
    with Suc.IH [where k = "Suc k" and g = g and a = a] show ?thesis by simp
  qed
qed

lemma new_CubeAnimation_callback:
  "new_CubeAnimation g mv cb =
     (fst (new_CubeAnimation g mv []), (snd (new_CubeAnimation g mv []))\<lparr>onComplete := cb\<rparr>)"
proof -
  let ?a = "\<lparr>anim_move = mv, onComplete = [], progress = 0, duration = 3 / 10,
        rotationGroup = Some new_Group, originalPositions = Map.empty, originalQuaternions = Map.empty\<rparr>"
  have "\<lparr>anim_move = mv, onComplete = cb, progress = 0, duration = 3 / 10,
        rotationGroup = Some new_Group, originalPositions = Map.empty, originalQuaternions = Map.empty\<rparr>
        = ?a\<lparr>onComplete := cb\<rparr>" by simp
  then show ?thesis
    using forEach_from_callback [where n = "length g" and k = 0 and g = g and a = ?a and cb = cb]
    by (simp add: new_CubeAnimation_def createRotationGroup_def Let_def)
qed

lemma processQueue_start:
  assumes "cubeGroup st" and "currentAnimation st = None" and "moveQueue st = mv # q"
  shows "processQueue st =
    (st\<lparr>isAnimating := True, group_children := fst (new_CubeAnimation (group_children st) mv q),
         currentAnimation := Some (snd (new_CubeAnimation (group_children st) mv q))\<rparr>, [Started mv])"
  using assms by (simp add: processQueue_def Let_def)

lemma finish_called: "snd (snd (finish g a)) = (rotationGroup a \<noteq> None)"
  by (simp add: finish_def split: option.splits)

lemma finish_session:
  "onComplete (fst (snd (finish g a))) = onComplete a"
  "anim_move (fst (snd (finish g a))) = anim_move a"
  "rotationGroup (fst (snd (finish g a))) = None"
  by (simp_all add: finish_def split: option.splits)

lemma update_complete:
  "rotationGroup a \<noteq> None \<Longrightarrow> snd (update delta a) = (1 \<le> progress a + delta / duration a)"
  by (auto simp: update_def Let_def split: option.splits)

lemma finish_after_update: "fst (finish g (fst (update delta a))) = fst (finish g a)"
  using finish_after_updates [of g "[delta]" a] by simp

lemma useFrame_commit:
  assumes "currentAnimation st = Some a" and "rotationGroup a \<noteq> None"
    and "1 \<le> progress a + delta / duration a"
  shows "useFrame delta st =
    (st\<lparr>group_children := fst (finish (group_children st) a), currentAnimation := None,
         moveQueue := onComplete a, isAnimating := (onComplete a \<noteq> [] \<and> isAnimating st)\<rparr>,
     [Completed (anim_move a)])"
  using assms
  by (simp add: useFrame_def Let_def update_complete finish_called update_fields finish_session
      finish_after_update call_onComplete_def)

subsection \<open>The move switch\<close>

text \<open>
  C3. Each of the twelve tokens U, U', D, D', R, R', L, L', F, F', B, B' is mapped by the
  switch to the triple of the table (axis, slice, direction); a token that the switch
  maps to a triple appends exactly that triple to the queue; and for every other string
  \<^verbatim>\<open>performMove\<close> returns the state as it was: nothing is enqueued, and the cube, the
  queue, the session and the flag are unchanged.
\<close>

theorem performMove_table:
  "parseMove ''U'' = Some \<lparr>axis = Y, index = 1, direction = - 1\<rparr> \<and>
   parseMove [CHR ''U'', prime] = Some \<lparr>axis = Y, index = 1, direction = 1\<rparr> \<and>
   parseMove ''D'' = Some \<lparr>axis = Y, index = - 1, direction = 1\<rparr> \<and>
   parseMove [CHR ''D'', prime] = Some \<lparr>axis = Y, index = - 1, direction = - 1\<rparr> \<and>
   parseMove ''R'' = Some \<lparr>axis = X, index = 1, direction = - 1\<rparr> \<and>
   parseMove [CHR ''R'', prime] = Some \<lparr>axis = X, index = 1, direction = 1\<rparr> \<and>
   parseMove ''L'' = Some \<lparr>axis = X, index = - 1, direction = 1\<rparr> \<and>
   parseMove [CHR ''L'', prime] = Some \<lparr>axis = X, index = - 1, direction = - 1\<rparr> \<and>
   parseMove ''F'' = Some \<lparr>axis = Z, index = 1, direction = - 1\<rparr> \<and>
   parseMove [CHR ''F'', prime] = Some \<lparr>axis = Z, index = 1, direction = 1\<rparr> \<and>
   parseMove ''B'' = Some \<lparr>axis = Z, index = - 1, direction = 1\<rparr> \<and>
   parseMove [CHR ''B'', prime] = Some \<lparr>axis = Z, index = - 1, direction = - 1\<rparr> \<and>
   (\<forall>moveData. parseMove move = Some moveData \<longrightarrow>
      performMove move st = st\<lparr>moveQueue := moveQueue st @ [moveData]\<rparr>) \<and>
   (move \<notin> set move_tokens \<longrightarrow> parseMove move = None \<and> performMove move st = st)"
  by (simp add: parseMove_def performMove_def handleCubeInitialized_def move_tokens_def prime_def)

theorem performMove_table_witness:
  "''U2'' \<notin> set move_tokens \<and> performMove ''U2'' mounted = mounted \<and>
   parseMove ''F'' = Some \<lparr>axis = Z, index = 1, direction = - 1\<rparr> \<and>
   performMove ''F'' mounted = mounted\<lparr>moveQueue := [\<lparr>axis = Z, index = 1, direction = - 1\<rparr>]\<rparr>"
  using performMove_table [of "''U2''" mounted] performMove_table [of "''F''" mounted]
  by (simp add: move_tokens_def mounted_def prime_def)

subsection \<open>A session after its commit\<close>

text \<open>
  C10. After \<^verbatim>\<open>finish\<close> has run, the session has no rotation group; \<^verbatim>\<open>update\<close> on it
  reports completion and returns the session unchanged, and a second \<^verbatim>\<open>finish\<close> returns
  the group (whatever it has become) and the session unchanged, without calling
  \<^verbatim>\<open>onComplete\<close> again.
\<close>

theorem finished_session_inert:
  "rotationGroup (fst (snd (finish g a))) = None \<and>
   update delta (fst (snd (finish g a))) = (fst (snd (finish g a)), True) \<and>
   finish g' (fst (snd (finish g a))) = (g', fst (snd (finish g a)), False)"
  by (simp add: finish_def update_def split: option.splits)

subsection \<open>A whole move through the component\<close>

lemma quarter_pose_callback: "quarter_pose (a\<lparr>onComplete := cb\<rparr>) = quarter_pose a"
  by (rule ext) (simp add: quarter_pose_def split: option.splits)

lemma finish_committed:
  assumes "direction mv = 1 \<or> direction mv = - 1"
  shows "fst (finish (fst (new_CubeAnimation g mv cb)) (snd (new_CubeAnimation g mv cb))) =
         committed g mv"
proof -
  let ?r = "new_CubeAnimation g mv []"
  have r: "new_CubeAnimation g mv cb = (fst ?r, (snd ?r)\<lparr>onComplete := cb\<rparr>)"
    by (rule new_CubeAnimation_callback)
  have d: "direction (anim_move ((snd ?r)\<lparr>onComplete := cb\<rparr>)) = 1 \<or>
           direction (anim_move ((snd ?r)\<lparr>onComplete := cb\<rparr>)) = - 1"
    using assms by (simp add: new_CubeAnimation_fields)
  have n: "rotationGroup ((snd ?r)\<lparr>onComplete := cb\<rparr>) \<noteq> None"
    by (simp add: new_CubeAnimation_fields)
  have p: "pivot_children ((snd ?r)\<lparr>onComplete := cb\<rparr>) = pivot_children (snd ?r)"
    by (simp add: pivot_children_def)
  have "restore_child ((snd ?r)\<lparr>onComplete := cb\<rparr>) = quarter_pose (snd ?r)"
    using restore_child_quarter [OF d] by (simp add: fun_eq_iff quarter_pose_callback)
  then show ?thesis
    using n p by (auto simp: r finish_group committed_def Let_def)
qed

lemma whole_move:
  assumes "cubeGroup st" and "currentAnimation st = None" and "moveQueue st = mv # q"
    and "direction mv = 1 \<or> direction mv = - 1" and "3 / 10 \<le> delta"
  shows "run (RunEffect # Frame delta # acts) st =
     (fst (run acts (st\<lparr>group_children := committed (group_children st) mv, moveQueue := q,
                         isAnimating := (q \<noteq> [])\<rparr>)),
      Started mv # Completed mv #
      snd (run acts (st\<lparr>group_children := committed (group_children st) mv, moveQueue := q,
                         isAnimating := (q \<noteq> [])\<rparr>)))"
proof -
  let ?r = "new_CubeAnimation (group_children st) mv q"
  let ?s1 = "st\<lparr>isAnimating := True, group_children := fst ?r, currentAnimation := Some (snd ?r)\<rparr>"
  have e: "processQueue st = (?s1, [Started mv])"
    using assms(1-3) by (rule processQueue_start)
  have "1 \<le> progress (snd ?r) + delta / duration (snd ?r)"
    using assms(5) by (simp add: new_CubeAnimation_fields)
  then have f: "useFrame delta ?s1 =
    (?s1\<lparr>group_children := fst (finish (group_children ?s1) (snd ?r)), currentAnimation := None,
         moveQueue := onComplete (snd ?r), isAnimating := (onComplete (snd ?r) \<noteq> [] \<and> isAnimating ?s1)\<rparr>,
     [Completed (anim_move (snd ?r))])"
    by (intro useFrame_commit) (simp_all add: new_CubeAnimation_fields)
  have "fst (useFrame delta ?s1) =
     st\<lparr>group_children := committed (group_children st) mv, moveQueue := q, isAnimating := (q \<noteq> [])\<rparr>"
    using assms(2) by (simp add: f finish_committed [OF assms(4)] new_CubeAnimation_fields)
  moreover have "snd (useFrame delta ?s1) = [Completed mv]"
    by (simp add: f new_CubeAnimation_fields)
  ultimately show ?thesis
    by (simp add: e Let_def)
qed

lemma run_performMove: "run (PerformMove move # acts) st = run acts (performMove move st)"
  by (simp add: Let_def)

subsection \<open>Layer extraction on the initial cube\<close>

text \<open>
  C5 (the code departs from the claim). On the initial cube the layer \<open>x = 1\<close> holds
  the nine cubies 18 to 26, which are neighbours in the child list. The loop of
  \<^verbatim>\<open>createRotationGroup\<close> removes a selected child from the list it is iterating, so the
  child behind it is never visited: for the move R it detaches the five cubies 18, 20,
  22, 24 and 26 and leaves 19, 21, 23 and 25 of the layer in the group.
\<close>

theorem layer_extraction_skips_neighbours:
  "map mesh_id (layer X 1 initial_group) = [18, 19, 20, 21, 22, 23, 24, 25, 26] \<and>
   map mesh_id (pivot_children (snd (new_CubeAnimation initial_group
       \<lparr>axis = X, index = 1, direction = - 1\<rparr> []))) = [18, 20, 22, 24, 26] \<and>
   map mesh_id (meshes (fst (new_CubeAnimation initial_group
       \<lparr>axis = X, index = 1, direction = - 1\<rparr> []))) =
     [0, 1, 2, 3, 4, 5, 6, 7, 8, 9, 10, 11, 12, 13, 14, 15, 16, 17, 19, 21, 23, 25]"
  by code_simp

subsection \<open>Positions after a committed move\<close>

text \<open>
  C6 (the code departs from the claim). From the mounted component, the move U run to
  its commit leaves the component at rest with two cubies, 25 and 15, at the position
  (1, 1, 0): cubie 25 of the layer \<open>y = 1\<close> was skipped by the loop and stayed, and
  cubie 15 was turned onto its place.
\<close>

theorem cubies_collide_after_U:
  "currentAnimation (fst (run [PerformMove ''U'', RunEffect, Frame (3 / 10)] mounted)) = None \<and>
   map mesh_id (filter (\<lambda>m. position m = \<lparr>vx = 1, vy = 1, vz = 0\<rparr>)
     (meshes (group_children (fst (run [PerformMove ''U'', RunEffect, Frame (3 / 10)] mounted)))))
   = [25, 15]"
proof -
  let ?U = "\<lparr>axis = Y, index = 1, direction = - 1\<rparr>"
  have p: "performMove ''U'' mounted = mounted\<lparr>moveQueue := [?U]\<rparr>"
    by (simp add: performMove_def parseMove_def handleCubeInitialized_def mounted_def)
  have m: "run [RunEffect, Frame (3 / 10)] (mounted\<lparr>moveQueue := [?U]\<rparr>) =
      (fst (run [] (mounted\<lparr>moveQueue := [?U]\<rparr>\<lparr>group_children := committed (group_children (mounted\<lparr>moveQueue := [?U]\<rparr>)) ?U, moveQueue := [],
                         isAnimating := ([] \<noteq> ([] :: MoveData list))\<rparr>)),
      Started ?U # Completed ?U #
      snd (run [] (mounted\<lparr>moveQueue := [?U]\<rparr>\<lparr>group_children := committed (group_children (mounted\<lparr>moveQueue := [?U]\<rparr>)) ?U, moveQueue := [],
                         isAnimating := ([] \<noteq> ([] :: MoveData list))\<rparr>)))"
    by (rule whole_move) (simp_all add: mounted_def)
  have c: "map mesh_id (filter (\<lambda>m. position m = \<lparr>vx = 1, vy = 1, vz = 0\<rparr>)
     (meshes (committed initial_group ?U))) = [25, 15]"
    by code_simp
  show ?thesis
    unfolding run_performMove p m by (simp add: mounted_def c)
qed

text \<open>
  C9 (the code departs from the claim). From the mounted component, the move R run to its
  commit and then its primed counterpart R' run to its commit leave the component at
  rest with cubie 19 at (1, 0, -1), while it was at (1, -1, 0) before the pair: R skipped
  it (it follows the selected cubie 18 in the child list), and R', on the reordered
  child list, selected and turned it.
\<close>

theorem inverse_pair_moves_cubie:
  "currentAnimation (fst (run [PerformMove ''R'', RunEffect, Frame (3 / 10),
       PerformMove [CHR ''R'', prime], RunEffect, Frame (3 / 10)] mounted)) = None \<and>
   map position (filter (\<lambda>m. mesh_id m = 19) (meshes (group_children mounted))) =
     [\<lparr>vx = 1, vy = - 1, vz = 0\<rparr>] \<and>
   map position (filter (\<lambda>m. mesh_id m = 19)
     (meshes (group_children (fst (run [PerformMove ''R'', RunEffect, Frame (3 / 10),
       PerformMove [CHR ''R'', prime], RunEffect, Frame (3 / 10)] mounted))))) =
     [\<lparr>vx = 1, vy = 0, vz = - 1\<rparr>]"
proof -
  let ?R = "\<lparr>axis = X, index = 1, direction = - 1\<rparr>"
  let ?R' = "\<lparr>axis = X, index = 1, direction = 1\<rparr>"
  let ?s1 = "mounted\<lparr>moveQueue := [?R]\<rparr>"
  let ?s2 = "?s1\<lparr>group_children := committed (group_children ?s1) ?R, moveQueue := [],
                  isAnimating := ([] \<noteq> ([] :: MoveData list))\<rparr>"
  let ?s3 = "?s2\<lparr>moveQueue := [?R']\<rparr>"
  let ?s4 = "?s3\<lparr>group_children := committed (group_children ?s3) ?R', moveQueue := [],
                  isAnimating := ([] \<noteq> ([] :: MoveData list))\<rparr>"
  let ?tail = "[PerformMove [CHR ''R'', prime], RunEffect, Frame (3 / 10)]"
  have p1: "performMove ''R'' mounted = ?s1"
    by (simp add: performMove_def parseMove_def handleCubeInitialized_def mounted_def)
  have m1: "run (RunEffect # Frame (3 / 10) # ?tail) ?s1 =
      (fst (run ?tail ?s2), Started ?R # Completed ?R # snd (run ?tail ?s2))"
    by (rule whole_move) (simp_all add: mounted_def)
  have p2: "performMove [CHR ''R'', prime] ?s2 = ?s3"
    by (simp add: performMove_def parseMove_def handleCubeInitialized_def mounted_def prime_def)
  have m2: "run (RunEffect # Frame (3 / 10) # []) ?s3 =
      (fst (run [] ?s4), Started ?R' # Completed ?R' # snd (run [] ?s4))"
    by (rule whole_move) (simp_all add: mounted_def)
  have c0: "map position (filter (\<lambda>m. mesh_id m = 19) (meshes initial_group)) =
     [\<lparr>vx = 1, vy = - 1, vz = 0\<rparr>]"
    by code_simp
  have c: "map position (filter (\<lambda>m. mesh_id m = 19)
      (meshes (committed (committed initial_group ?R) ?R'))) = [\<lparr>vx = 1, vy = 0, vz = - 1\<rparr>]"
    by code_simp
  show ?thesis
    unfolding run_performMove p1 m1 fst_conv p2 m2 by (simp add: mounted_def c c0)
qed

subsection \<open>The queue\<close>

text \<open>
  C2 (the code departs from the claim). The completion closure writes back the queue as
  it was when its session started, less the head. From the mounted component: U is
  enqueued, the effect starts it, and R is enqueued while U is in flight, so that the
  queue holds U and R. The frame that completes U then leaves the queue empty and no
  session; the effect and a further frame start nothing, and the events of the whole run
  are the start and the completion of U alone: R is lost.
\<close>

theorem move_enqueued_in_flight_is_lost:
  "moveQueue (fst (run [PerformMove ''U'', RunEffect, PerformMove ''R''] mounted)) =
     [\<lparr>axis = Y, index = 1, direction = - 1\<rparr>, \<lparr>axis = X, index = 1, direction = - 1\<rparr>] \<and>
   moveQueue (fst (run [PerformMove ''U'', RunEffect, PerformMove ''R'', Frame (3 / 10)] mounted)) = [] \<and>
   currentAnimation (fst (run [PerformMove ''U'', RunEffect, PerformMove ''R'', Frame (3 / 10)] mounted)) = None \<and>
   snd (run [PerformMove ''U'', RunEffect, PerformMove ''R'', Frame (3 / 10), RunEffect, Frame (3 / 10)] mounted) =
     [Started \<lparr>axis = Y, index = 1, direction = - 1\<rparr>, Completed \<lparr>axis = Y, index = 1, direction = - 1\<rparr>]"
proof -
  let ?U = "\<lparr>axis = Y, index = 1, direction = - 1\<rparr>"
  let ?R = "\<lparr>axis = X, index = 1, direction = - 1\<rparr>"
  let ?s1 = "mounted\<lparr>moveQueue := [?U]\<rparr>"
  let ?r = "new_CubeAnimation (group_children ?s1) ?U []"
  let ?s2 = "?s1\<lparr>isAnimating := True, group_children := fst ?r, currentAnimation := Some (snd ?r)\<rparr>"
  let ?s3 = "?s2\<lparr>moveQueue := [?U, ?R]\<rparr>"
  let ?s4 = "?s3\<lparr>group_children := fst (finish (group_children ?s3) (snd ?r)), currentAnimation := None,
         moveQueue := onComplete (snd ?r), isAnimating := (onComplete (snd ?r) \<noteq> [] \<and> isAnimating ?s3)\<rparr>"
  have p1: "performMove ''U'' mounted = ?s1"
    by (simp add: performMove_def parseMove_def handleCubeInitialized_def mounted_def)
  have e: "processQueue ?s1 = (?s2, [Started ?U])"
    by (rule processQueue_start) (simp_all add: mounted_def)
  have p2: "performMove ''R'' ?s2 = ?s3"
    by (simp add: performMove_def parseMove_def handleCubeInitialized_def mounted_def)
  have f: "useFrame (3 / 10) ?s3 = (?s4, [Completed (anim_move (snd ?r))])"
    by (rule useFrame_commit) (simp_all add: new_CubeAnimation_fields)
  have q4: "moveQueue ?s4 = []" "currentAnimation ?s4 = None"
    by (simp_all add: new_CubeAnimation_fields)
  have e2: "processQueue ?s4 = (?s4, [])"
    using q4 by (simp add: processQueue_def)
  have f2: "useFrame (3 / 10) ?s4 = (?s4, [])"
    using q4 by (simp add: useFrame_def)
  have m: "anim_move (snd ?r) = ?U"
    by (simp add: new_CubeAnimation_fields)
  have r3: "run [PerformMove ''U'', RunEffect, PerformMove ''R''] mounted = (?s3, [Started ?U])"
    unfolding run.simps step.simps Let_def p1 fst_conv snd_conv e p2 by simp
  have r4: "run [PerformMove ''U'', RunEffect, PerformMove ''R'', Frame (3 / 10)] mounted =
      (?s4, [Started ?U, Completed ?U])"
    unfolding run.simps step.simps Let_def p1 fst_conv snd_conv e p2 f m by simp
  have r6: "run [PerformMove ''U'', RunEffect, PerformMove ''R'', Frame (3 / 10), RunEffect,
      Frame (3 / 10)] mounted = (?s4, [Started ?U, Completed ?U])"
    unfolding run.simps step.simps Let_def p1 fst_conv snd_conv e p2 f m e2 f2 by simp
  show ?thesis
    unfolding r3 r4 r6 fst_conv snd_conv using q4 by simp
qed

subsection \<open>One session at a time\<close>

lemma performMove_session: "currentAnimation (performMove move st) = currentAnimation st"
  by (simp add: performMove_def handleCubeInitialized_def split: option.splits)

lemma processQueue_shape:
  "(snd (processQueue st) = [] \<and> processQueue st = (st, [])) \<or>
   (currentAnimation st = None \<and> cubeGroup st \<and>
    (\<exists>m q. moveQueue st = m # q \<and> snd (processQueue st) = [Started m] \<and>
       in_flight (fst (processQueue st)) = Some m))"
  by (cases "moveQueue st")
     (auto simp: processQueue_def in_flight_def Let_def new_CubeAnimation_fields)

lemma useFrame_shape:
  "(snd (useFrame delta st) = [] \<and> in_flight (fst (useFrame delta st)) = in_flight st) \<or>
   (\<exists>m. in_flight st = Some m \<and> snd (useFrame delta st) = [Completed m] \<and>
      in_flight (fst (useFrame delta st)) = None)"
  by (cases "currentAnimation st")
     (auto simp: useFrame_def in_flight_def Let_def update_fields finish_session
        call_onComplete_def)

lemma step_shape:
  "(snd (step act st) = [] \<and> in_flight (fst (step act st)) = in_flight st) \<or>
   (in_flight st = None \<and> currentAnimation st = None \<and> cubeGroup st \<and>
    (\<exists>m q. moveQueue st = m # q \<and> snd (step act st) = [Started m] \<and>
       in_flight (fst (step act st)) = Some m)) \<or>
   (\<exists>m. in_flight st = Some m \<and> snd (step act st) = [Completed m] \<and>
      in_flight (fst (step act st)) = None)"
proof (cases act)
  case (PerformMove move)
  then show ?thesis by (simp add: in_flight_def performMove_session)
next
  case RunEffect
  then show ?thesis using processQueue_shape [of st] by (auto simp: in_flight_def)
next
  case (Frame delta)
  then show ?thesis using useFrame_shape [of delta st] by auto
qed

lemma run_alternating: "alternating (in_flight st) (snd (run acts st))"
proof (induction acts arbitrary: st)
  case Nil
  then show ?case by simp
next
  case (Cons act acts)
  have ih: "alternating (in_flight (fst (step act st))) (snd (run acts (fst (step act st))))"
    by (rule Cons.IH)
  from step_shape [of act st] show ?case
  proof (elim disjE conjE exE)
    assume "snd (step act st) = []" "in_flight (fst (step act st)) = in_flight st"
    with ih show ?thesis by (simp add: Let_def)
  next
    fix m q
    assume "in_flight st = None" "snd (step act st) = [Started m]"
      "in_flight (fst (step act st)) = Some m"
    with ih show ?thesis by (simp add: Let_def)
  next
    fix m
    assume "in_flight st = Some m" "snd (step act st) = [Completed m]"
      "in_flight (fst (step act st)) = None"
    with ih show ?thesis by (simp add: Let_def)
  qed
qed

lemma alternating_order:
  "alternating cur es \<Longrightarrow>
   (case cur of
      None \<Rightarrow> completed es = take (length (completed es)) (started es) \<and>
              length (started es) \<le> Suc (length (completed es))
    | Some m \<Rightarrow> completed es = take (length (completed es)) (m # started es) \<and>
              length (started es) \<le> length (completed es))"
  by (induction cur es rule: alternating.induct) (auto split: option.splits)

text \<open>
  C7. Whatever the state and whatever the sequence of enqueues, effect runs and frames:
  the starts and completions of sessions alternate, each completion being that of the
  move started last, so no move starts while another is in flight; from a state with no
  session, the completed moves are an initial part of the started moves, in the same
  order, and at most one started move is not yet completed; and a step starts a move only
  from a state with no session, with the group present and a non-empty queue, the move
  being the head of the queue.
\<close>

theorem sessions_never_overlap:
  "alternating (in_flight st) (snd (run acts st)) \<and>
   (currentAnimation st = None \<longrightarrow>
      completed (snd (run acts st)) =
        take (length (completed (snd (run acts st)))) (started (snd (run acts st))) \<and>
      length (started (snd (run acts st))) \<le> Suc (length (completed (snd (run acts st))))) \<and>
   (Started m \<in> set (snd (step act st)) \<longrightarrow>
      currentAnimation st = None \<and> cubeGroup st \<and> moveQueue st \<noteq> [] \<and> hd (moveQueue st) = m)"
proof (intro conjI impI)
  show a: "alternating (in_flight st) (snd (run acts st))"
    by (rule run_alternating)
  {
    assume "currentAnimation st = None"
    then have "in_flight st = None" by (simp add: in_flight_def)
    with alternating_order [OF a]
    show "completed (snd (run acts st)) =
        take (length (completed (snd (run acts st)))) (started (snd (run acts st)))"
      and "length (started (snd (run acts st))) \<le> Suc (length (completed (snd (run acts st))))"
      by simp_all
  }
  {
    assume "Started m \<in> set (snd (step act st))"
    with step_shape [of act st]
    show "currentAnimation st = None" "cubeGroup st" "moveQueue st \<noteq> []" "hd (moveQueue st) = m"
      by auto
  }
qed

theorem sessions_never_overlap_witness:
  "currentAnimation (mounted\<lparr>moveQueue := [\<lparr>axis = Y, index = 1, direction = - 1\<rparr>, \<lparr>axis = X, index = 1, direction = - 1\<rparr>]\<rparr>) = None \<and>
   Started \<lparr>axis = Y, index = 1, direction = - 1\<rparr> \<in> set (snd (step RunEffect
      (mounted\<lparr>moveQueue := [\<lparr>axis = Y, index = 1, direction = - 1\<rparr>, \<lparr>axis = X, index = 1, direction = - 1\<rparr>]\<rparr>))) \<and>
   snd (run [RunEffect, Frame (3 / 10), RunEffect, Frame (3 / 10)]
      (mounted\<lparr>moveQueue := [\<lparr>axis = Y, index = 1, direction = - 1\<rparr>, \<lparr>axis = X, index = 1, direction = - 1\<rparr>]\<rparr>)) =
     [Started \<lparr>axis = Y, index = 1, direction = - 1\<rparr>, Completed \<lparr>axis = Y, index = 1, direction = - 1\<rparr>,
      Started \<lparr>axis = X, index = 1, direction = - 1\<rparr>, Completed \<lparr>axis = X, index = 1, direction = - 1\<rparr>] \<and>
   alternating None (snd (run [RunEffect, Frame (3 / 10), RunEffect, Frame (3 / 10)]
      (mounted\<lparr>moveQueue := [\<lparr>axis = Y, index = 1, direction = - 1\<rparr>, \<lparr>axis = X, index = 1, direction = - 1\<rparr>]\<rparr>))) \<and>
   hd (moveQueue (mounted\<lparr>moveQueue := [\<lparr>axis = Y, index = 1, direction = - 1\<rparr>, \<lparr>axis = X, index = 1, direction = - 1\<rparr>]\<rparr>)) =
     \<lparr>axis = Y, index = 1, direction = - 1\<rparr>"
proof -
  let ?U = "\<lparr>axis = Y, index = 1, direction = - 1\<rparr>"
  let ?R = "\<lparr>axis = X, index = 1, direction = - 1\<rparr>"
  let ?s0 = "mounted\<lparr>moveQueue := [?U, ?R]\<rparr>"
  let ?s1 = "?s0\<lparr>group_children := committed (group_children ?s0) ?U, moveQueue := [?R],
                  isAnimating := ([?R] \<noteq> [])\<rparr>"
  let ?s2 = "?s1\<lparr>group_children := committed (group_children ?s1) ?R, moveQueue := [],
                  isAnimating := ([] \<noteq> ([] :: MoveData list))\<rparr>"
  have n: "currentAnimation ?s0 = None"
    by (simp add: mounted_def)
  have e: "processQueue ?s0 =
    (?s0\<lparr>isAnimating := True, group_children := fst (new_CubeAnimation (group_children ?s0) ?U [?R]),
         currentAnimation := Some (snd (new_CubeAnimation (group_children ?s0) ?U [?R]))\<rparr>, [Started ?U])"
    by (rule processQueue_start) (simp_all add: mounted_def)
  have m1: "run (RunEffect # Frame (3 / 10) # [RunEffect, Frame (3 / 10)]) ?s0 =
      (fst (run [RunEffect, Frame (3 / 10)] ?s1),
       Started ?U # Completed ?U # snd (run [RunEffect, Frame (3 / 10)] ?s1))"
    by (rule whole_move) (simp_all add: mounted_def)
  have m2: "run (RunEffect # Frame (3 / 10) # []) ?s1 =
      (fst (run [] ?s2), Started ?R # Completed ?R # snd (run [] ?s2))"
    by (rule whole_move) (simp_all add: mounted_def)
  have t: "snd (run [RunEffect, Frame (3 / 10), RunEffect, Frame (3 / 10)] ?s0) =
     [Started ?U, Completed ?U, Started ?R, Completed ?R]"
    unfolding m1 snd_conv m2 by simp
  have s: "Started ?U \<in> set (snd (step RunEffect ?s0))"
    unfolding step.simps e by simp
  from sessions_never_overlap [of ?s0 "[RunEffect, Frame (3 / 10), RunEffect, Frame (3 / 10)]" ?U RunEffect]
  show ?thesis
    using n s t by (simp add: in_flight_def)
qed

subsection \<open>The loop of createRotationGroup keeps track of what it detaches\<close>

lemma Object3D_remove_subset: "set (Object3D_remove c g) \<subseteq> set g"
  by (induction g) auto

lemma meshes_remove_mesh:
  "map mesh_id (meshes (Object3D_remove (MeshChild m) g)) = remove1 (mesh_id m) (map mesh_id (meshes g))"
proof (induction g)
  case Nil
  then show ?case by simp
next
  case (Cons c g)
  then show ?case by (cases c) auto
qed

lemma meshes_remove_pivot: "meshes (Object3D_remove PivotChild g) = meshes g"
proof (induction g)
  case Nil
  then show ?case by simp
next
  case (Cons c g)
  then show ?case by (cases c) auto
qed

lemma meshes_append: "meshes (g @ h) = meshes g @ meshes h"
proof (induction g)
  case Nil
  then show ?case by simp
next
  case (Cons c g)
  then show ?case by (cases c) auto
qed

lemma meshes_MeshChild: "meshes (map MeshChild ms) = ms"
  by (induction ms) auto

lemma set_meshes: "(m \<in> set (meshes g)) = (MeshChild m \<in> set g)"
proof (induction g)
  case Nil
  then show ?case by simp
next
  case (Cons c g)
  then show ?case by (cases c) auto
qed

lemma pivot_children_attach:
  "rotationGroup a \<noteq> None \<Longrightarrow> pivot_children (attach_to_pivot m a) = pivot_children a @ [m]"
  by (auto simp: pivot_children_def attach_to_pivot_def)

lemma detached_inv_visit:
  assumes inv: "detached_inv g0 s" and c: "c \<in> set (fst s)"
  shows "detached_inv g0 (visit_child c s)"
proof (cases c)
  case PivotChild
  with inv show ?thesis by (simp add: visit_child_def)
next
  case (MeshChild m)
  let ?mv = "anim_move (snd s)"
  show ?thesis
  proof (cases "round (getComponent (position m) (axis ?mv)) = index ?mv")
    case False
    with MeshChild inv show ?thesis by (simp add: visit_child_def Let_def)
  next
    case True
    let ?p = "sub (position m) (multiplyScalar (axisVector (axis ?mv)) (of_int (index ?mv)))"
    let ?a = "(snd s)\<lparr>originalPositions := (originalPositions (snd s))(mesh_id m \<mapsto> position m),
                 originalQuaternions := (originalQuaternions (snd s))(mesh_id m \<mapsto> quaternion m)\<rparr>"
    let ?g' = "Object3D_remove c (fst s)"
    let ?a' = "attach_to_pivot (m\<lparr>position := ?p\<rparr>) ?a"
    have v: "visit_child c s = (?g', ?a')"
      using MeshChild True by (simp add: visit_child_def Let_def)
    from inv have rg: "rotationGroup (snd s) \<noteq> None"
      and sub: "\<And>m'. MeshChild m' \<in> set (fst s) \<Longrightarrow> MeshChild m' \<in> set g0"
      and piv: "\<And>m'. m' \<in> set (pivot_children (snd s)) \<Longrightarrow>
         \<exists>m0. MeshChild m0 \<in> set g0 \<and> m' = m0\<lparr>position := position m'\<rparr> \<and>
              originalPositions (snd s) (mesh_id m0) = Some (position m0) \<and>
              originalQuaternions (snd s) (mesh_id m0) = Some (quaternion m0)"
      and dist: "distinct (map mesh_id (meshes (fst s)) @ map mesh_id (pivot_children (snd s)))"
      by (auto simp: detached_inv_def)
    have pc: "pivot_children ?a' = pivot_children (snd s) @ [m\<lparr>position := ?p\<rparr>]"
      using rg by (auto simp: pivot_children_def attach_to_pivot_def)
    have maps: "originalPositions ?a' = (originalPositions (snd s))(mesh_id m \<mapsto> position m)"
      "originalQuaternions ?a' = (originalQuaternions (snd s))(mesh_id m \<mapsto> quaternion m)"
      by (simp_all add: attach_to_pivot_def)
    have m_in: "mesh_id m \<in> set (map mesh_id (meshes (fst s)))"
      using c MeshChild by (auto simp: set_meshes [symmetric])
    have m_notin: "mesh_id m \<notin> set (map mesh_id (pivot_children (snd s)))"
      using dist m_in by auto
    have 1: "rotationGroup ?a' \<noteq> None"
      using rg by (auto simp: attach_to_pivot_def)
    have 2: "MeshChild m' \<in> set ?g' \<Longrightarrow> MeshChild m' \<in> set g0" for m'
      using Object3D_remove_subset [of c "fst s"] sub by auto
    have 3: "\<exists>m0. MeshChild m0 \<in> set g0 \<and> m' = m0\<lparr>position := position m'\<rparr> \<and>
              originalPositions ?a' (mesh_id m0) = Some (position m0) \<and>
              originalQuaternions ?a' (mesh_id m0) = Some (quaternion m0)"
      if "m' \<in> set (pivot_children ?a')" for m'
    proof (cases "m' \<in> set (pivot_children (snd s))")
      case True
      from piv [OF True] obtain m0 where m0: "MeshChild m0 \<in> set g0"
        "m' = m0\<lparr>position := position m'\<rparr>"
        "originalPositions (snd s) (mesh_id m0) = Some (position m0)"
        "originalQuaternions (snd s) (mesh_id m0) = Some (quaternion m0)" by blast
      from m0(2) have "mesh_id m' = mesh_id m0"
        by (metis Mesh.select_convs(1) Mesh.surjective Mesh.update_convs(2))
      with True m_notin have "mesh_id m0 \<noteq> mesh_id m"
        by (metis image_eqI set_map)
      with m0 show ?thesis unfolding maps by (intro exI [of _ m0]) simp
    next
      case False
      with that pc have e: "m' = m\<lparr>position := ?p\<rparr>" by simp
      have "MeshChild m \<in> set g0" using c MeshChild sub by simp
      then show ?thesis unfolding maps e by (intro exI [of _ m]) simp
    qed
    have 4: "distinct (map mesh_id (meshes ?g') @ map mesh_id (pivot_children ?a'))"
      using dist m_in m_notin unfolding pc MeshChild meshes_remove_mesh
      by (auto dest: notin_set_remove1)
    show ?thesis
      unfolding v detached_inv_def fst_conv snd_conv using 1 2 3 4 by blast
  qed
qed

lemma detached_inv_forEach:
  assumes "detached_inv g0 s"
  shows "detached_inv g0 (forEach_from n k s)"
  using assms by (rule forEach_from_invariant) (rule detached_inv_visit)

lemma detached_inv_new:
  assumes "distinct (map mesh_id (meshes g))"
  shows "\<exists>g'. fst (new_CubeAnimation g mv cb) = g' @ [PivotChild] \<and>
           detached_inv g (g', snd (new_CubeAnimation g mv cb))"
proof -
  let ?a = "\<lparr>anim_move = mv, onComplete = cb, progress = 0, duration = 3 / 10,
        rotationGroup = Some new_Group, originalPositions = Map.empty, originalQuaternions = Map.empty\<rparr>"
  let ?s = "forEach_from (length g) 0 (g, ?a)"
  have "detached_inv g (g, ?a)"
    using assms by (simp add: detached_inv_def pivot_children_def new_Group_def)
  then have i: "detached_inv g ?s"
    by (rule detached_inv_forEach)
  have "detached_inv g (fst ?s, snd (new_CubeAnimation g mv cb))"
    using i
    by (auto simp: detached_inv_def new_CubeAnimation_def createRotationGroup_def Let_def
        pivot_children_def)
  moreover have "fst (new_CubeAnimation g mv cb) = fst ?s @ [PivotChild]"
    by (simp add: new_CubeAnimation_def createRotationGroup_def Let_def Object3D_add_def)
  ultimately show ?thesis by blast
qed

subsection \<open>The pose given by the commit\<close>

lemma find_by_key:
  "distinct (map f xs) \<Longrightarrow> x \<in> set xs \<Longrightarrow> find (\<lambda>c. f c = f x) xs = Some x"
  by (induction xs) (auto simp: rev_image_eqI)

lemma restore_child_id: "mesh_id (restore_child a m) = mesh_id m"
  by (simp add: restore_child_def Let_def split: option.splits)

lemma meshes_restored: "meshes (map (\<lambda>m. MeshChild (f m)) ms) = map f ms"
  by (induction ms) auto

lemma round_minus_one: "round (- 1 :: real) = - 1"
  using round_of_int [of "- 1", where 'a = real] by simp

lemma commit_detached:
  assumes d: "distinct (map mesh_id (meshes g))"
    and m: "m \<in> set (pivot_children (snd (new_CubeAnimation g mv cb)))"
  shows "\<exists>m0. find (\<lambda>c. mesh_id c = mesh_id m) (meshes g) = Some m0 \<and>
           m = m0\<lparr>position := position m\<rparr> \<and>
           originalPositions (snd (new_CubeAnimation g mv cb)) (mesh_id m) = Some (position m0) \<and>
           originalQuaternions (snd (new_CubeAnimation g mv cb)) (mesh_id m) = Some (quaternion m0) \<and>
           find (\<lambda>c. mesh_id c = mesh_id m)
             (meshes (fst (finish (fst (new_CubeAnimation g mv cb))
                (updates deltas (snd (new_CubeAnimation g mv cb)))))) =
           Some (restore_child (snd (new_CubeAnimation g mv cb)) m)"
proof -
  let ?r = "new_CubeAnimation g mv cb"
  from detached_inv_new [OF d, of mv cb] obtain g' where
    g': "fst ?r = g' @ [PivotChild]" and inv: "detached_inv g (g', snd ?r)" by blast
  from inv m obtain m0 where m0: "MeshChild m0 \<in> set g" "m = m0\<lparr>position := position m\<rparr>"
    "originalPositions (snd ?r) (mesh_id m0) = Some (position m0)"
    "originalQuaternions (snd ?r) (mesh_id m0) = Some (quaternion m0)"
    unfolding detached_inv_def fst_conv snd_conv by blast
  from m0(2) have id: "mesh_id m = mesh_id m0"
    by (metis Mesh.select_convs(1) Mesh.surjective Mesh.update_convs(2))
  have f0: "find (\<lambda>c. mesh_id c = mesh_id m) (meshes g) = Some m0"
    unfolding id using d m0(1) by (intro find_by_key) (simp_all add: set_meshes)
  from inv have dist: "distinct (map mesh_id (meshes g') @ map mesh_id (pivot_children (snd ?r)))"
    and rg: "rotationGroup (snd ?r) \<noteq> None"
    by (simp_all add: detached_inv_def)
  let ?ms = "meshes g' @ map (restore_child (snd ?r)) (pivot_children (snd ?r))"
  have "fst (finish (fst ?r) (updates deltas (snd ?r))) =
      Object3D_remove PivotChild
        (fst ?r @ map (\<lambda>m. MeshChild (restore_child (snd ?r) m)) (pivot_children (snd ?r)))"
    unfolding finish_after_updates using rg by (auto simp: finish_group)
  then have fin: "meshes (fst (finish (fst ?r) (updates deltas (snd ?r)))) = ?ms"
    by (simp add: g' meshes_remove_pivot meshes_append meshes_restored)
  have e: "map mesh_id ?ms = map mesh_id (meshes g') @ map mesh_id (pivot_children (snd ?r))"
    by (simp add: restore_child_id)
  have d': "distinct (map mesh_id ?ms)"
    unfolding e by (rule dist)
  have "restore_child (snd ?r) m \<in> set ?ms" using m by simp
  with d' have "find (\<lambda>c. mesh_id c = mesh_id (restore_child (snd ?r) m)) ?ms =
      Some (restore_child (snd ?r) m)"
    by (rule find_by_key)
  then have f1: "find (\<lambda>c. mesh_id c = mesh_id m) ?ms = Some (restore_child (snd ?r) m)"
    by (simp add: restore_child_id)
  show ?thesis
    using f0 m0(2-4) f1 unfolding fin id by blast
qed

text \<open>
  The hypothesis on identities is kept by a move: after the commit the meshes of the
  group still have distinct identities.
\<close>

lemma commit_keeps_identities:
  assumes d: "distinct (map mesh_id (meshes g))"
  shows "distinct (map mesh_id (meshes (fst (finish (fst (new_CubeAnimation g mv cb))
            (updates deltas (snd (new_CubeAnimation g mv cb)))))))"
proof -
  let ?r = "new_CubeAnimation g mv cb"
  from detached_inv_new [OF d, of mv cb] obtain g' where
    g': "fst ?r = g' @ [PivotChild]" and inv: "detached_inv g (g', snd ?r)" by blast
  from inv have dist: "distinct (map mesh_id (meshes g') @ map mesh_id (pivot_children (snd ?r)))"
    and rg: "rotationGroup (snd ?r) \<noteq> None"
    by (simp_all add: detached_inv_def)
  let ?ms = "meshes g' @ map (restore_child (snd ?r)) (pivot_children (snd ?r))"
  have "fst (finish (fst ?r) (updates deltas (snd ?r))) =
      Object3D_remove PivotChild
        (fst ?r @ map (\<lambda>m. MeshChild (restore_child (snd ?r) m)) (pivot_children (snd ?r)))"
    unfolding finish_after_updates using rg by (auto simp: finish_group)
  then have fin: "meshes (fst (finish (fst ?r) (updates deltas (snd ?r)))) = ?ms"
    by (simp add: g' meshes_remove_pivot meshes_append meshes_restored)
  have e: "map mesh_id ?ms = map mesh_id (meshes g') @ map mesh_id (pivot_children (snd ?r))"
    by (simp add: restore_child_id)
  show ?thesis
    unfolding fin e by (rule dist)
qed

text \<open>
  The grid is kept by a move: from a group whose cubies are on or near the grid, the commit
  of a move of direction 1 or -1 leaves every cubie on or near the grid (the detached
  ones exactly on it).
\<close>

lemma near_coord_round: "near_coord c \<Longrightarrow> (of_int (round c) :: real) \<in> {- 1, 0, 1}"
proof -
  assume "near_coord c"
  then consider "\<bar>c + 1\<bar> \<le> 1 / 4" | "\<bar>c\<bar> \<le> 1 / 4" | "\<bar>c - 1\<bar> \<le> 1 / 4"
    by (auto simp: near_coord_def)
  then show ?thesis
  proof cases
    case 1
    then have "round c = - 1" unfolding round_def by linarith
    then show ?thesis by simp
  next
    case 2
    then have "round c = 0" unfolding round_def by linarith
    then show ?thesis by simp
  next
    case 3
    then have "round c = 1" unfolding round_def by linarith
    then show ?thesis by simp
  qed
qed

lemma near_coord_minus: "near_coord (- c) = near_coord c"
  unfolding near_coord_def by linarith

lemma near_coord_signed: "d = 1 \<or> d = - 1 \<Longrightarrow> near_coord c \<Longrightarrow> near_coord (of_int d * c)"
  by (auto simp: near_coord_minus)

lemma near_coord_neg_signed: "d = 1 \<or> d = - 1 \<Longrightarrow> near_coord c \<Longrightarrow> near_coord (- of_int d * c)"
  by (auto simp: near_coord_minus)

lemma near_grid_quarterTurn:
  assumes "d = 1 \<or> d = - 1" and "near_grid v"
  shows "near_grid (quarterTurn ax d v)"
  using assms near_coord_signed [OF assms(1)] near_coord_neg_signed [OF assms(1)]
  by (cases ax) (simp_all add: near_grid_def)

lemma on_grid_snapToGrid: "near_grid v \<Longrightarrow> on_grid (snapToGrid v)"
  using near_coord_round by (simp add: near_grid_def on_grid_def snapToGrid_def)

lemma on_grid_near_grid: "on_grid v \<Longrightarrow> near_grid v"
  by (auto simp: on_grid_def near_grid_def near_coord_def)

lemma commit_keeps_grid:
  assumes d: "distinct (map mesh_id (meshes g))"
    and n: "list_all (\<lambda>c. near_grid (position c)) (meshes g)"
    and s: "direction mv = 1 \<or> direction mv = - 1"
  shows "list_all (\<lambda>c. near_grid (position c))
           (meshes (fst (finish (fst (new_CubeAnimation g mv cb))
              (updates deltas (snd (new_CubeAnimation g mv cb))))))"
proof -
  let ?r = "new_CubeAnimation g mv cb"
  let ?f = "meshes (fst (finish (fst ?r) (updates deltas (snd ?r))))"
  from detached_inv_new [OF d, of mv cb] obtain g' where
    g': "fst ?r = g' @ [PivotChild]" and inv: "detached_inv g (g', snd ?r)" by blast
  from inv have rg: "rotationGroup (snd ?r) \<noteq> None"
    and sub: "\<And>c. MeshChild c \<in> set g' \<Longrightarrow> MeshChild c \<in> set g"
    by (auto simp: detached_inv_def)
  have "fst (finish (fst ?r) (updates deltas (snd ?r))) =
      Object3D_remove PivotChild
        (fst ?r @ map (\<lambda>m. MeshChild (restore_child (snd ?r) m)) (pivot_children (snd ?r)))"
    unfolding finish_after_updates using rg by (auto simp: finish_group)
  then have fin: "?f = meshes g' @ map (restore_child (snd ?r)) (pivot_children (snd ?r))"
    by (simp add: g' meshes_remove_pivot meshes_append meshes_restored)
  have "near_grid (position c)" if "c \<in> set ?f" for c
  proof (cases "c \<in> set (meshes g')")
    case True
    then have "c \<in> set (meshes g)" using sub by (simp add: set_meshes)
    with n show ?thesis by (simp add: list_all_iff)
  next
    case False
    with that fin obtain m where m: "m \<in> set (pivot_children (snd ?r))"
      and c: "c = restore_child (snd ?r) m" by auto
    from commit_detached [OF d m, of deltas] obtain m0 where
      m0: "find (\<lambda>c. mesh_id c = mesh_id m) (meshes g) = Some m0"
        "m = m0\<lparr>position := position m\<rparr>"
        "originalPositions (snd ?r) (mesh_id m) = Some (position m0)"
        "originalQuaternions (snd ?r) (mesh_id m) = Some (quaternion m0)"
        "find (\<lambda>c. mesh_id c = mesh_id m)
           (meshes (fst (finish (fst ?r) (updates deltas (snd ?r))))) =
         Some (restore_child (snd ?r) m)" by blast
    from m0(1) have "m0 \<in> set (meshes g)"
      by (auto simp: find_Some_iff in_set_conv_nth)
    with n have "near_grid (position m0)" by (simp add: list_all_iff)
    then have g: "on_grid (snapToGrid (quarterTurn (axis mv) (direction mv) (position m0)))"
      by (intro on_grid_snapToGrid near_grid_quarterTurn [OF s])
    have "direction (anim_move (snd ?r)) = 1 \<or> direction (anim_move (snd ?r)) = - 1"
      using s by (simp add: new_CubeAnimation_fields)
    then have "restore_child (snd ?r) m = quarter_pose (snd ?r) m"
      by (rule restore_child_quarter)
    then have "position c = snapToGrid (quarterTurn (axis mv) (direction mv) (position m0))"
      using m0(3,4) by (simp add: c quarter_pose_def new_CubeAnimation_fields)
    with g show ?thesis by (simp add: on_grid_near_grid)
  qed
  then show ?thesis by (simp add: list_all_iff)
qed

text \<open>
  C1. Take a group whose meshes have distinct identities and sit on or near the grid (each
  coordinate within 1/4 of -1, 0 or 1), a move of direction 1 or -1, and a cubie that the
  constructor detached into the rotation group. After any number of frames of any sizes,
  \<^verbatim>\<open>finish\<close> leaves that cubie in the group at the position whose three coordinates are
  the nearest integers to the coordinates of the exact quarter turn, about the move's
  axis and with the sign of the direction, of the position it had before the move; that
  position is exactly on the grid. The frames do not enter the result.
\<close>

theorem commit_position_exact:
  assumes "distinct (map mesh_id (meshes g))"
    and "list_all (\<lambda>c. near_grid (position c)) (meshes g)"
    and "direction mv = 1 \<or> direction mv = - 1"
    and "m \<in> set (pivot_children (snd (new_CubeAnimation g mv cb)))"
  shows "\<exists>m0. find (\<lambda>c. mesh_id c = mesh_id m) (meshes g) = Some m0 \<and>
           find (\<lambda>c. mesh_id c = mesh_id m)
             (meshes (fst (finish (fst (new_CubeAnimation g mv cb))
                (updates deltas (snd (new_CubeAnimation g mv cb)))))) =
           Some (m0\<lparr>position :=
                      \<lparr>vx = of_int (round (vx (quarterTurn (axis mv) (direction mv) (position m0)))),
                       vy = of_int (round (vy (quarterTurn (axis mv) (direction mv) (position m0)))),
                       vz = of_int (round (vz (quarterTurn (axis mv) (direction mv) (position m0))))\<rparr>,
                    quaternion := identityQuaternion\<rparr>) \<and>
           on_grid
             \<lparr>vx = of_int (round (vx (quarterTurn (axis mv) (direction mv) (position m0)))),
              vy = of_int (round (vy (quarterTurn (axis mv) (direction mv) (position m0)))),
              vz = of_int (round (vz (quarterTurn (axis mv) (direction mv) (position m0))))\<rparr>"
proof -
  let ?r = "new_CubeAnimation g mv cb"
  from commit_detached [OF assms(1,4), of deltas] obtain m0 where
    m0: "find (\<lambda>c. mesh_id c = mesh_id m) (meshes g) = Some m0"
      "m = m0\<lparr>position := position m\<rparr>"
      "originalPositions (snd ?r) (mesh_id m) = Some (position m0)"
      "originalQuaternions (snd ?r) (mesh_id m) = Some (quaternion m0)"
      "find (\<lambda>c. mesh_id c = mesh_id m)
         (meshes (fst (finish (fst ?r) (updates deltas (snd ?r))))) =
       Some (restore_child (snd ?r) m)" by blast
  let ?q = "quarterTurn (axis mv) (direction mv) (position m0)"
  have "direction (anim_move (snd ?r)) = 1 \<or> direction (anim_move (snd ?r)) = - 1"
    using assms(3) by (simp add: new_CubeAnimation_fields)
  then have "restore_child (snd ?r) m = quarter_pose (snd ?r) m"
    by (rule restore_child_quarter)
  also have "\<dots> = m\<lparr>position := snapToGrid ?q, quaternion := identityQuaternion\<rparr>"
    using m0(3,4) by (simp add: quarter_pose_def new_CubeAnimation_fields)
  also have "\<dots> = m0\<lparr>position := snapToGrid ?q, quaternion := identityQuaternion\<rparr>"
    by (subst m0(2)) simp
  finally have r: "restore_child (snd ?r) m =
      m0\<lparr>position := snapToGrid ?q, quaternion := identityQuaternion\<rparr>" .
  from m0(1) have "m0 \<in> set (meshes g)"
    by (auto simp: find_Some_iff in_set_conv_nth)
  with assms(2) have "near_grid (position m0)"
    by (simp add: list_all_iff)
  then have "near_grid ?q"
    by (rule near_grid_quarterTurn [OF assms(3)])
  then have "on_grid (snapToGrid ?q)"
    by (rule on_grid_snapToGrid)
  with m0(1,5) r show ?thesis
    by (simp add: snapToGrid_def)
qed

theorem commit_position_exact_witness:
  "find (\<lambda>c. mesh_id c = 0)
     (meshes (fst (finish
        (fst (new_CubeAnimation
           [MeshChild \<lparr>mesh_id = 0, position = \<lparr>vx = 1, vy = - (7 / 8), vz = - (9 / 8)\<rparr>,
                       quaternion = identityQuaternion\<rparr>,
            MeshChild \<lparr>mesh_id = 1, position = \<lparr>vx = 0, vy = 0, vz = 0\<rparr>,
                       quaternion = identityQuaternion\<rparr>]
           \<lparr>axis = X, index = 1, direction = - 1\<rparr> []))
        (updates [1 / 10, 1 / 5]
          (snd (new_CubeAnimation
           [MeshChild \<lparr>mesh_id = 0, position = \<lparr>vx = 1, vy = - (7 / 8), vz = - (9 / 8)\<rparr>,
                       quaternion = identityQuaternion\<rparr>,
            MeshChild \<lparr>mesh_id = 1, position = \<lparr>vx = 0, vy = 0, vz = 0\<rparr>,
                       quaternion = identityQuaternion\<rparr>]
           \<lparr>axis = X, index = 1, direction = - 1\<rparr> [])))))) =
     Some \<lparr>mesh_id = 0, position = \<lparr>vx = 1, vy = - 1, vz = 1\<rparr>, quaternion = identityQuaternion\<rparr>"
proof -
  let ?R = "\<lparr>axis = X, index = 1, direction = - 1\<rparr>"
  let ?g = "[MeshChild \<lparr>mesh_id = 0, position = \<lparr>vx = 1, vy = - (7 / 8), vz = - (9 / 8)\<rparr>,
                       quaternion = identityQuaternion\<rparr>,
            MeshChild \<lparr>mesh_id = 1, position = \<lparr>vx = 0, vy = 0, vz = 0\<rparr>,
                       quaternion = identityQuaternion\<rparr>]"
  let ?m = "\<lparr>mesh_id = 0, position = \<lparr>vx = 0, vy = - (7 / 8), vz = - (9 / 8)\<rparr>,
             quaternion = identityQuaternion\<rparr>"
  have d: "distinct (map mesh_id (meshes ?g))"
    by simp
  have n: "list_all (\<lambda>c. near_grid (position c)) (meshes ?g)"
    by (simp add: near_grid_def near_coord_def)
  have s: "direction ?R = 1 \<or> direction ?R = - 1"
    by simp
  have m: "?m \<in> set (pivot_children (snd (new_CubeAnimation ?g ?R [])))"
    by code_simp
  have f: "find (\<lambda>c. mesh_id c = mesh_id ?m) (meshes ?g) =
     Some \<lparr>mesh_id = 0, position = \<lparr>vx = 1, vy = - (7 / 8), vz = - (9 / 8)\<rparr>,
                       quaternion = identityQuaternion\<rparr>"
    by simp
  have r1: "round (- (9 / 8) :: real) = - 1" and r2: "round (7 / 8 :: real) = 1"
    unfolding round_def by linarith+
  from commit_position_exact [OF d n s m, of "[1 / 10, 1 / 5]"]
  show ?thesis
    unfolding f by (simp add: r1 r2)
qed

subsection \<open>The orientation given by the commit\<close>

lemma restore_child_quaternion:
  "originalPositions a (mesh_id m) \<noteq> None \<Longrightarrow> originalQuaternions a (mesh_id m) \<noteq> None \<Longrightarrow>
   quaternion (restore_child a m) = identityQuaternion"
  by (auto simp: restore_child_def Let_def setFromEuler_zero)

lemma forEach_from_subset: "set (fst (forEach_from n k s)) \<subseteq> set (fst s)"
proof (rule forEach_from_invariant [where P = "\<lambda>t. set (fst t) \<subseteq> set (fst s)"])
  show "set (fst s) \<subseteq> set (fst s)" by simp
next
  fix c and t :: "Object3D list \<times> CubeAnimation"
  assume "set (fst t) \<subseteq> set (fst s)"
  moreover have "set (fst (visit_child c t)) \<subseteq> set (fst t)"
    using Object3D_remove_subset [of c "fst t"]
    by (auto simp: visit_child_def Let_def split: Object3D.splits)
  ultimately show "set (fst (visit_child c t)) \<subseteq> set (fst s)" by blast
qed

lemma Object3D_remove_pivot_middle:
  "PivotChild \<notin> set g \<Longrightarrow> Object3D_remove PivotChild (g @ PivotChild # h) = g @ h"
proof (induction g)
  case Nil
  then show ?case by simp
next
  case (Cons c g)
  then show ?case by (cases c) auto
qed

lemma finish_removes_pivot:
  assumes "PivotChild \<notin> set g"
  shows "PivotChild \<notin> set (fst (finish (fst (new_CubeAnimation g mv cb))
            (updates deltas (snd (new_CubeAnimation g mv cb)))))"
proof -
  let ?r = "new_CubeAnimation g mv cb"
  let ?a = "\<lparr>anim_move = mv, onComplete = cb, progress = 0, duration = 3 / 10,
        rotationGroup = Some new_Group, originalPositions = Map.empty, originalQuaternions = Map.empty\<rparr>"
  let ?g' = "fst (forEach_from (length g) 0 (g, ?a))"
  have g': "fst ?r = ?g' @ [PivotChild]"
    by (simp add: new_CubeAnimation_def createRotationGroup_def Let_def Object3D_add_def)
  have "set ?g' \<subseteq> set g"
    using forEach_from_subset [of "length g" 0 "(g, ?a)"] by simp
  with assms have p: "PivotChild \<notin> set ?g'" by blast
  have rg: "rotationGroup (snd ?r) \<noteq> None"
    by (simp add: new_CubeAnimation_fields)
  have "fst (finish (fst ?r) (updates deltas (snd ?r))) =
      Object3D_remove PivotChild
        (?g' @ PivotChild # map (\<lambda>m. MeshChild (restore_child (snd ?r) m)) (pivot_children (snd ?r)))"
    unfolding finish_after_updates using rg by (auto simp: finish_group g')
  also have "\<dots> = ?g' @ map (\<lambda>m. MeshChild (restore_child (snd ?r) m)) (pivot_children (snd ?r))"
    using p by (rule Object3D_remove_pivot_middle)
  finally show ?thesis using p by auto
qed

text \<open>
  C4, as stated, fails. On the initial cube and the move F, cubie 2 (detached, with the
  identity as its orientation before the move) comes out of \<^verbatim>\<open>finish\<close> with the identity
  as its orientation, which is not the identity composed with the quarter turn about Z, on
  either side.
\<close>

theorem commit_orientation_counterexample:
  "find (\<lambda>c. mesh_id c = 2) (meshes initial_group) =
     Some \<lparr>mesh_id = 2, position = \<lparr>vx = - 1, vy = - 1, vz = 1\<rparr>, quaternion = identityQuaternion\<rparr> \<and>
   find (\<lambda>c. mesh_id c = 2)
     (meshes (fst (finish (fst (new_CubeAnimation initial_group \<lparr>axis = Z, index = 1, direction = - 1\<rparr> []))
        (snd (new_CubeAnimation initial_group \<lparr>axis = Z, index = 1, direction = - 1\<rparr> []))))) =
     Some \<lparr>mesh_id = 2, position = \<lparr>vx = - 1, vy = 1, vz = 1\<rparr>, quaternion = identityQuaternion\<rparr> \<and>
   identityQuaternion \<noteq>
     multiplyQuaternions (quarterTurnQuaternion \<lparr>axis = Z, index = 1, direction = - 1\<rparr>) identityQuaternion \<and>
   identityQuaternion \<noteq>
     multiplyQuaternions identityQuaternion (quarterTurnQuaternion \<lparr>axis = Z, index = 1, direction = - 1\<rparr>)"
proof -
  let ?F = "\<lparr>axis = Z, index = 1, direction = - 1\<rparr>"
  have a: "find (\<lambda>c. mesh_id c = 2) (meshes initial_group) =
     Some \<lparr>mesh_id = 2, position = \<lparr>vx = - 1, vy = - 1, vz = 1\<rparr>, quaternion = identityQuaternion\<rparr>"
    by code_simp
  have "fst (finish (fst (new_CubeAnimation initial_group ?F [])) (snd (new_CubeAnimation initial_group ?F [])))
      = committed initial_group ?F"
    by (rule finish_committed) simp
  moreover have "find (\<lambda>c. mesh_id c = 2) (meshes (committed initial_group ?F)) =
     Some \<lparr>mesh_id = 2, position = \<lparr>vx = - 1, vy = 1, vz = 1\<rparr>, quaternion = identityQuaternion\<rparr>"
    by code_simp
  ultimately have b: "find (\<lambda>c. mesh_id c = 2)
     (meshes (fst (finish (fst (new_CubeAnimation initial_group ?F [])) (snd (new_CubeAnimation initial_group ?F []))))) =
     Some \<lparr>mesh_id = 2, position = \<lparr>vx = - 1, vy = 1, vz = 1\<rparr>, quaternion = identityQuaternion\<rparr>"
    by simp
  have w: "sqrt 2 / 2 \<noteq> (1 :: real)"
  proof
    assume "sqrt 2 / 2 = (1 :: real)"
    then have "sqrt 2 = 2" by simp
    then have "(sqrt 2)\<^sup>2 = 2\<^sup>2" by simp
    then show False by simp
  qed
  have q: "qw (quarterTurnQuaternion ?F) = sqrt 2 / 2"
    by (simp add: quarterTurnQuaternion_def setFromAxisAngle_def Let_def cos_45)
  have c: "identityQuaternion \<noteq> multiplyQuaternions (quarterTurnQuaternion ?F) identityQuaternion"
  proof
    assume "identityQuaternion = multiplyQuaternions (quarterTurnQuaternion ?F) identityQuaternion"
    then have "qw identityQuaternion = qw (multiplyQuaternions (quarterTurnQuaternion ?F) identityQuaternion)"
      by simp
    then show False using w by (simp add: identityQuaternion_def multiplyQuaternions_def q)
  qed
  have d: "identityQuaternion \<noteq> multiplyQuaternions identityQuaternion (quarterTurnQuaternion ?F)"
  proof
    assume "identityQuaternion = multiplyQuaternions identityQuaternion (quarterTurnQuaternion ?F)"
    then have "qw identityQuaternion = qw (multiplyQuaternions identityQuaternion (quarterTurnQuaternion ?F))"
      by simp
    then show False using w by (simp add: identityQuaternion_def multiplyQuaternions_def q)
  qed
  show ?thesis using a b c d by blast
qed

text \<open>
  C4, amended. Take a group whose meshes have distinct identities, any move, and a cubie
  that the constructor detached into the rotation group. After any frames, \<^verbatim>\<open>finish\<close>
  leaves that cubie in the group's child list with the identity orientation (the stored
  orientation is copied back and then overwritten by the reset of the Euler rotation to
  zero; no quarter turn is composed). The rotation group is destroyed: the session's
  \<^verbatim>\<open>rotationGroup\<close> is \<^verbatim>\<open>null\<close>, and the group's child list, if it held no rotation group
  before the move, holds none after the commit.
\<close>

theorem commit_resets_orientation:
  assumes "distinct (map mesh_id (meshes g))"
    and "m \<in> set (pivot_children (snd (new_CubeAnimation g mv cb)))"
  shows "\<exists>m'. find (\<lambda>c. mesh_id c = mesh_id m)
             (meshes (fst (finish (fst (new_CubeAnimation g mv cb))
                (updates deltas (snd (new_CubeAnimation g mv cb)))))) = Some m' \<and>
           MeshChild m' \<in> set (fst (finish (fst (new_CubeAnimation g mv cb))
                (updates deltas (snd (new_CubeAnimation g mv cb))))) \<and>
           quaternion m' = identityQuaternion \<and>
           pivot_children (fst (snd (finish (fst (new_CubeAnimation g mv cb))
                (updates deltas (snd (new_CubeAnimation g mv cb)))))) = [] \<and>
           rotationGroup (fst (snd (finish (fst (new_CubeAnimation g mv cb))
                (updates deltas (snd (new_CubeAnimation g mv cb)))))) = None \<and>
           (PivotChild \<notin> set g \<longrightarrow>
              PivotChild \<notin> set (fst (finish (fst (new_CubeAnimation g mv cb))
                (updates deltas (snd (new_CubeAnimation g mv cb))))))"
proof -
  let ?r = "new_CubeAnimation g mv cb"
  let ?f = "fst (finish (fst ?r) (updates deltas (snd ?r)))"
  from commit_detached [OF assms, of deltas] obtain m0 where
    m0: "find (\<lambda>c. mesh_id c = mesh_id m) (meshes g) = Some m0"
      "m = m0\<lparr>position := position m\<rparr>"
      "originalPositions (snd ?r) (mesh_id m) = Some (position m0)"
      "originalQuaternions (snd ?r) (mesh_id m) = Some (quaternion m0)"
      "find (\<lambda>c. mesh_id c = mesh_id m) (meshes ?f) = Some (restore_child (snd ?r) m)" by blast
  have q: "quaternion (restore_child (snd ?r) m) = identityQuaternion"
    using m0(3,4) by (intro restore_child_quaternion) simp_all
  from m0(5) have "restore_child (snd ?r) m \<in> set (meshes ?f)"
    by (auto simp: find_Some_iff in_set_conv_nth)
  then have i: "MeshChild (restore_child (snd ?r) m) \<in> set ?f"
    by (simp add: set_meshes)
  have p: "pivot_children (fst (snd (finish (fst ?r) (updates deltas (snd ?r))))) = []"
    by (simp add: pivot_children_def finish_session)
  have n: "rotationGroup (fst (snd (finish (fst ?r) (updates deltas (snd ?r))))) = None"
    by (simp add: finish_session)
  have "PivotChild \<notin> set g \<longrightarrow> PivotChild \<notin> set ?f"
    using finish_removes_pivot [of g mv cb deltas] by blast
  with m0(5) i q p n show ?thesis by blast
qed

theorem commit_resets_orientation_witness:
  "find (\<lambda>c. mesh_id c = 2)
     (meshes (fst (finish (fst (new_CubeAnimation initial_group \<lparr>axis = Z, index = 1, direction = - 1\<rparr> []))
        (updates [3 / 10] (snd (new_CubeAnimation initial_group \<lparr>axis = Z, index = 1, direction = - 1\<rparr> [])))))) \<noteq> None \<and>
   map_option quaternion (find (\<lambda>c. mesh_id c = 2)
     (meshes (fst (finish (fst (new_CubeAnimation initial_group \<lparr>axis = Z, index = 1, direction = - 1\<rparr> []))
        (updates [3 / 10] (snd (new_CubeAnimation initial_group \<lparr>axis = Z, index = 1, direction = - 1\<rparr> []))))))) =
     Some identityQuaternion \<and>
   rotationGroup (fst (snd (finish (fst (new_CubeAnimation initial_group \<lparr>axis = Z, index = 1, direction = - 1\<rparr> []))
        (updates [3 / 10] (snd (new_CubeAnimation initial_group \<lparr>axis = Z, index = 1, direction = - 1\<rparr> [])))))) = None \<and>
   PivotChild \<notin> set initial_group \<and>
   PivotChild \<notin> set (fst (finish (fst (new_CubeAnimation initial_group \<lparr>axis = Z, index = 1, direction = - 1\<rparr> []))
        (updates [3 / 10] (snd (new_CubeAnimation initial_group \<lparr>axis = Z, index = 1, direction = - 1\<rparr> [])))))"
proof -
  let ?F = "\<lparr>axis = Z, index = 1, direction = - 1\<rparr>"
  let ?m = "\<lparr>mesh_id = 2, position = \<lparr>vx = - 1, vy = - 1, vz = 0\<rparr>, quaternion = identityQuaternion\<rparr>"
  have d: "distinct (map mesh_id (meshes initial_group))"
    by code_simp
  have m: "?m \<in> set (pivot_children (snd (new_CubeAnimation initial_group ?F [])))"
    by code_simp
  have b: "PivotChild \<notin> set initial_group"
    by (auto simp: initial_group_def)
  from commit_resets_orientation [OF d m, of "[3 / 10]"] b
  show ?thesis
    by auto
qed

subsection \<open>Layer extraction has no guard\<close>







end
